theory Spec2Isabelle
  imports Main
begin

section \<open>Go values shared by all components\<close>

text \<open>
  A Go string and a Go byte slice's contents are both sequences of bytes; a HOL
  \<^typ>\<open>char\<close> is one byte.
\<close>

type_synonym bytes = string

text \<open>
  A Go function either returns or panics (an out-of-range slice expression, a nil
  dereference, an explicit \<^verbatim>\<open>panic\<close>).
\<close>

datatype 'a go = Returns 'a | Panics

text \<open>
  Go \<^verbatim>\<open>error\<close> values. \<open>APIError code message\<close> is an error implementing
  \<^verbatim>\<open>smithy.APIError\<close>; \<open>ErrorString text\<close> is any other leaf error;
  \<open>Wrapped prefix inner\<close> is an error that wraps another one (as the provider SDK's
  operation errors do), so that \<^verbatim>\<open>errors.As\<close> looks through it.
\<close>

datatype error =
    ErrorString string
  | APIError string string
  | Wrapped string error

fun Error :: "error \<Rightarrow> string" where
  "Error (ErrorString s) = s"
| "Error (APIError code msg) = ''api error '' @ code @ '': '' @ msg"
| "Error (Wrapped p e) = p @ '': '' @ Error e"

text \<open>\<^verbatim>\<open>errors.As(err, &ae)\<close> with \<^verbatim>\<open>ae smithy.APIError\<close>: the first
  API error on the chain, as its code and message.\<close>

fun as_APIError :: "error \<Rightarrow> (string \<times> string) option" where
  "as_APIError (ErrorString s) = None"
| "as_APIError (APIError code msg) = Some (code, msg)"
| "as_APIError (Wrapped p e) = as_APIError e"

section \<open>Decimal numbers: strconv\<close>

text \<open>The test \<^verbatim>\<open>'0' <= c && c <= '9'\<close> on a byte, and the digit's value
  \<^verbatim>\<open>c - '0'\<close>.\<close>

definition isDigit :: "char \<Rightarrow> bool" where
  "isDigit c = ((48::nat) \<le> of_char c \<and> (of_char c :: nat) \<le> 57)"

definition digitVal :: "char \<Rightarrow> nat" where
  "digitVal c = of_char c - 48"

definition digitChar :: "nat \<Rightarrow> char" where
  "digitChar d = ''0123456789'' ! d"

definition maxUint64 :: nat where
  "maxUint64 = 2 ^ 64 - 1"

text \<open>The two errors of a \<^verbatim>\<open>*strconv.NumError\<close>.\<close>

datatype NumError = ErrSyntax | ErrRange

text \<open>
  The loop of \<^verbatim>\<open>strconv.ParseUint(s, 10, 64)\<close> over the bytes of \<open>s\<close>, with the
  value so far: a byte that is not a digit is a syntax error; the value is checked
  against \<^verbatim>\<open>maxUint64/10 + 1\<close> before it is multiplied and against \<^verbatim>\<open>maxUint64\<close>
  after the digit is added, and the loop stops at the first range error.
\<close>

fun ParseUint_loop :: "string \<Rightarrow> nat \<Rightarrow> NumError + nat" where
  "ParseUint_loop [] n = Inr n"
| "ParseUint_loop (c # cs) n =
     (if isDigit c then
        (if n \<ge> maxUint64 div 10 + 1 then Inl ErrRange
         else (let n1 = n * 10 + digitVal c
               in if n1 > maxUint64 then Inl ErrRange else ParseUint_loop cs n1))
      else Inl ErrSyntax)"

text \<open>\<^verbatim>\<open>strconv.ParseUint(s, 10, 64)\<close>: the value and the error, if any; the value
  is 0 with a syntax error and \<^verbatim>\<open>maxUint64\<close> with a range error.\<close>

definition ParseUint :: "string \<Rightarrow> nat \<times> NumError option" where
  "ParseUint s =
     (if s = [] then (0, Some ErrSyntax)
      else (case ParseUint_loop s 0 of
              Inl ErrSyntax \<Rightarrow> (0, Some ErrSyntax)
            | Inl ErrRange \<Rightarrow> (maxUint64, Some ErrRange)
            | Inr n \<Rightarrow> (n, None)))"

text \<open>\<^verbatim>\<open>strconv.ParseInt(s, 10, 64)\<close>: an optional sign, then \<^verbatim>\<open>ParseUint\<close>; out
  of the range of \<^verbatim>\<open>int64\<close> the value is the nearest bound, with a range error.\<close>

definition ParseInt :: "string \<Rightarrow> int \<times> NumError option" where
  "ParseInt s =
     (if s = [] then (0, Some ErrSyntax)
      else
        (let neg = (hd s = CHR ''-'');
             s1 = (if hd s = CHR ''+'' \<or> hd s = CHR ''-'' then tl s else s);
             (un, err) = ParseUint s1;
             cutoff = (2::nat) ^ 63
         in if err = Some ErrSyntax then (0, err)
            else if \<not> neg \<and> un \<ge> cutoff then (int cutoff - 1, Some ErrRange)
            else if neg \<and> un > cutoff then (- int cutoff, Some ErrRange)
            else (if neg then - int un else int un, None)))"

text \<open>The decimal digits of a number, most significant first, and
  \<^verbatim>\<open>strconv.Itoa\<close>, which puts a minus sign before those of a negative number.\<close>

fun FormatUint :: "nat \<Rightarrow> string" where
  "FormatUint n = (if n < 10 then [digitChar n] else FormatUint (n div 10) @ [digitChar (n mod 10)])"

declare FormatUint.simps [simp del]

definition Itoa :: "int \<Rightarrow> string" where
  "Itoa i = (if i < 0 then CHR ''-'' # FormatUint (nat (- i)) else FormatUint (nat i))"

section \<open>Scanning with a format: fmt\<close>

text \<open>
  The scanner reads runes from the UTF-8 bytes of its input. \<open>utf8SpaceLen s\<close> is the
  number of bytes of the rune at the head of \<open>s\<close> when \<^verbatim>\<open>isSpace\<close> holds of that
  rune, and 0 otherwise: the one-byte spaces U+0009 to U+000D and U+0020, and the
  encodings of U+0085, U+00A0, U+1680, U+2000 to U+200A, U+2028, U+2029, U+202F, U+205F
  and U+3000.
\<close>

definition utf8SpaceLen :: "string \<Rightarrow> nat" where
  "utf8SpaceLen s =
     (let bs = map of_char (take 3 s) :: nat list in
      case bs of
        [] \<Rightarrow> 0
      | b0 # r \<Rightarrow>
          if (9 \<le> b0 \<and> b0 \<le> 13) \<or> b0 = 32 then 1
          else if b0 = 0xC2 then
            (case r of b1 # _ \<Rightarrow> if b1 = 0x85 \<or> b1 = 0xA0 then 2 else 0 | [] \<Rightarrow> 0)
          else if b0 = 0xE1 then (if r = [0x9A, 0x80] then 3 else 0)
          else if b0 = 0xE2 then
            (case r of
               [b1, b2] \<Rightarrow>
                 if b1 = 0x80 \<and> ((0x80 \<le> b2 \<and> b2 \<le> 0x8A) \<or> b2 = 0xA8 \<or> b2 = 0xA9 \<or> b2 = 0xAF)
                 then 3
                 else if b1 = 0x81 \<and> b2 = 0x9F then 3 else 0
             | _ \<Rightarrow> 0)
          else if b0 = 0xE3 then (if r = [0x80, 0x80] then 3 else 0)
          else 0)"

text \<open>
  \<^verbatim>\<open>(*ss).SkipSpace\<close> under \<^verbatim>\<open>Sscanf\<close>, where a newline is not a space: a
  carriage return before a newline is passed over, a newline is the error
  \<^verbatim>\<open>unexpected newline\<close>, other spaces are skipped, and the first rune that is not
  a space is left in the input.
\<close>

fun SkipSpace :: "string \<Rightarrow> error + string" where
  "SkipSpace [] = Inr []"
| "SkipSpace (c # cs) =
     (if c = CHR 0x0D \<and> cs \<noteq> [] \<and> hd cs = CHR 0x0A then SkipSpace cs
      else if c = CHR 0x0A then Inl (ErrorString ''unexpected newline'')
      else if utf8SpaceLen (c # cs) = 0 then Inr (c # cs)
      else SkipSpace (drop (utf8SpaceLen (c # cs) - 1) cs))"

declare SkipSpace.simps [simp del]

text \<open>\<^verbatim>\<open>strconv.Quote\<close> of a string of printable ASCII without quotes or
  backslashes: the string between double quotes.\<close>

definition quote :: "string \<Rightarrow> string" where
  "quote s = CHR 0x22 # s @ [CHR 0x22]"

text \<open>
  \<^verbatim>\<open>(*ss).scanInt\<close> for the verb \<^verbatim>\<open>%d\<close> into an \<^verbatim>\<open>int\<close> of 64 bits: spaces
  are skipped, the input must not be at its end, a sign is accepted, then at least one
  digit is required and all the digits that follow are taken; the token is converted
  by \<^verbatim>\<open>strconv.ParseInt\<close>. The result is the number and the rest of the input.
\<close>

definition scanInt :: "string \<Rightarrow> error + (int \<times> string)" where
  "scanInt inp =
     (case SkipSpace inp of
        Inl e \<Rightarrow> Inl e
      | Inr i1 \<Rightarrow>
          if i1 = [] then Inl (ErrorString ''EOF'')
          else
            (let sgn = (if hd i1 = CHR ''+'' \<or> hd i1 = CHR ''-'' then [hd i1] else []);
                 i2 = (if hd i1 = CHR ''+'' \<or> hd i1 = CHR ''-'' then tl i1 else i1)
             in if i2 = [] then Inl (ErrorString ''EOF'')
                else if \<not> isDigit (hd i2) then Inl (ErrorString ''expected integer'')
                else
                  (let tok = sgn @ takeWhile isDigit i2
                   in case ParseInt tok of
                        (v, None) \<Rightarrow> Inr (v, dropWhile isDigit i2)
                      | (v, Some err) \<Rightarrow>
                          Inl (ErrorString (''strconv.ParseInt: parsing '' @ quote tok @
                                 '': value out of range'')))))"

text \<open>
  A format as the scanner walks it, for formats made of \<^verbatim>\<open>%d\<close> verbs and of
  literal characters that are neither spaces nor percent signs.
\<close>

datatype fmt_op = Lit char | VerbD

fun fmtOps :: "string \<Rightarrow> fmt_op list" where
  "fmtOps [] = []"
| "fmtOps [c] = [Lit c]"
| "fmtOps (c # d # r) =
     (if c = CHR ''%'' \<and> d = CHR ''d'' then VerbD # fmtOps r else Lit c # fmtOps (d # r))"

text \<open>
  \<^verbatim>\<open>(*ss).doScanf\<close>: a literal must be the next rune of the input (at the end of
  the input the error is \<^verbatim>\<open>unexpected EOF\<close>); a verb skips spaces and scans its
  operand. The input need not be used up. The result is the list of the numbers
  scanned, one for each verb.
\<close>

fun doScanf :: "fmt_op list \<Rightarrow> string \<Rightarrow> error + int list" where
  "doScanf [] inp = Inr []"
| "doScanf (Lit c # ops) inp =
     (case inp of
        [] \<Rightarrow> Inl (ErrorString ''unexpected EOF'')
      | x # xs \<Rightarrow>
          if x = c then doScanf ops xs else Inl (ErrorString ''input does not match format''))"
| "doScanf (VerbD # ops) inp =
     (case SkipSpace inp of
        Inl e \<Rightarrow> Inl e
      | Inr i1 \<Rightarrow>
          (case scanInt i1 of
             Inl e \<Rightarrow> Inl e
           | Inr (v, i2) \<Rightarrow>
               (case doScanf ops i2 of Inl e \<Rightarrow> Inl e | Inr vs \<Rightarrow> Inr (v # vs))))"

definition Sscanf :: "string \<Rightarrow> string \<Rightarrow> error + int list" where
  "Sscanf str format = doScanf (fmtOps format) str"

section \<open>Formatting a time: time\<close>

text \<open>
  \<^verbatim>\<open>time.Time\<close>: an instant, in seconds since the Unix epoch, with the offset east
  of UTC of its location (0 for the UTC times the provider SDK decodes).
\<close>

record Time =
  unixSec :: int
  zoneOffset :: int

text \<open>The constants of the package \<^verbatim>\<open>time\<close>; \<open>unixToAbsolute\<close> is
  \<^verbatim>\<open>unixToInternal + internalToAbsolute\<close>.\<close>

definition secondsPerDay :: int where
  "secondsPerDay = 86400"

definition unixToAbsolute :: int where
  "unixToAbsolute = 62135596800 + 9223371966579724800"

definition absoluteZeroYear :: int where
  "absoluteZeroYear = - 292277022399"

text \<open>\<^verbatim>\<open>t.abs()\<close>: seconds since the absolute zero year, in the time's location, as a
  \<^verbatim>\<open>uint64\<close>.\<close>

definition abs_of :: "Time \<Rightarrow> int" where
  "abs_of t = (unixSec t + zoneOffset t + unixToAbsolute) mod 2 ^ 64"

text \<open>\<^verbatim>\<open>absWeekday\<close> (Sunday is 0) and \<^verbatim>\<open>absClock\<close> (hour, minute, second).\<close>

definition absWeekday :: "int \<Rightarrow> int" where
  "absWeekday a = ((a + 1 * secondsPerDay) mod (7 * secondsPerDay)) div secondsPerDay"

definition absClock :: "int \<Rightarrow> int \<times> int \<times> int" where
  "absClock a =
     (let sec = a mod secondsPerDay;
          hour = sec div 3600;
          sec1 = sec - hour * 3600;
          mn = sec1 div 60;
          sec2 = sec1 - mn * 60
      in (hour, mn, sec2))"

definition isLeap :: "int \<Rightarrow> bool" where
  "isLeap year = (year mod 4 = 0 \<and> (year mod 100 \<noteq> 0 \<or> year mod 400 = 0))"

definition daysBefore :: "int list" where
  "daysBefore = [0, 31, 59, 90, 120, 151, 181, 212, 243, 273, 304, 334, 365]"

text \<open>\<^verbatim>\<open>absDate(abs, true)\<close>: year, month (January is 1) and day of the month.\<close>

definition absDate :: "int \<Rightarrow> int \<times> int \<times> int" where
  "absDate a =
     (let d0 = a div secondsPerDay;
          n400 = d0 div 146097;
          y400 = 400 * n400;
          d1 = d0 - 146097 * n400;
          n100a = d1 div 36524;
          n100 = n100a - n100a div 4;
          y100 = y400 + 100 * n100;
          d2 = d1 - 36524 * n100;
          n4 = d2 div 1461;
          y4 = y100 + 4 * n4;
          d3 = d2 - 1461 * n4;
          n1a = d3 div 365;
          n1 = n1a - n1a div 4;
          y = y4 + n1;
          yday = d3 - 365 * n1;
          year = y + absoluteZeroYear
      in if isLeap year \<and> yday = 31 + 29 - 1 then (year, 2, 29)
         else
           (let day = (if isLeap year \<and> yday > 31 + 29 - 1 then yday - 1 else yday);
                m0 = day div 31;
                e = daysBefore ! nat (m0 + 1)
            in if day \<ge> e then (year, m0 + 2, day - e + 1)
               else (year, m0 + 1, day - daysBefore ! nat m0 + 1)))"

definition longDayNames :: "string list" where
  "longDayNames =
     [''Sunday'', ''Monday'', ''Tuesday'', ''Wednesday'', ''Thursday'', ''Friday'', ''Saturday'']"

definition longMonthNames :: "string list" where
  "longMonthNames =
     [''January'', ''February'', ''March'', ''April'', ''May'', ''June'', ''July'', ''August'',
      ''September'', ''October'', ''November'', ''December'']"

text \<open>\<^verbatim>\<open>appendInt(b, x, width)\<close>: the decimal form of \<open>x\<close>, zero-padded to \<open>width\<close>.\<close>

definition appendInt :: "int \<Rightarrow> nat \<Rightarrow> string" where
  "appendInt x width =
     (let u = nat \<bar>x\<bar>;
          ds = FormatUint u
      in (if x < 0 then ''-'' else []) @ replicate (width - length ds) (CHR ''0'') @ ds)"

definition startsWithLowerCase :: "string \<Rightarrow> bool" where
  "startsWithLowerCase s =
     (case s of [] \<Rightarrow> False | c # _ \<Rightarrow> (97::nat) \<le> of_char c \<and> (of_char c :: nat) \<le> 122)"

text \<open>
  \<^verbatim>\<open>t.Format(layout)\<close>, for the layout chunks of this program's layout: \<^verbatim>\<open>Mon\<close>,
  \<^verbatim>\<open>Jan\<close>, \<^verbatim>\<open>2006\<close>, \<^verbatim>\<open>02\<close>, \<^verbatim>\<open>15\<close>, \<^verbatim>\<open>04\<close> and \<^verbatim>\<open>05\<close>; every
  other character of the layout is copied.
\<close>

fun Format :: "Time \<Rightarrow> string \<Rightarrow> string" where
  "Format t [] = []"
| "Format t (c # cs) =
     (if take 3 (c # cs) = ''Mon'' \<and> take 6 (c # cs) \<noteq> ''Monday''
           \<and> \<not> startsWithLowerCase (drop 2 cs)
      then take 3 (longDayNames ! nat (absWeekday (abs_of t))) @ Format t (drop 2 cs)
      else if take 3 (c # cs) = ''Jan'' \<and> take 7 (c # cs) \<noteq> ''January''
           \<and> \<not> startsWithLowerCase (drop 2 cs)
      then take 3 (longMonthNames ! nat (fst (snd (absDate (abs_of t))) - 1)) @ Format t (drop 2 cs)
      else if take 4 (c # cs) = ''2006''
      then appendInt (fst (absDate (abs_of t))) 4 @ Format t (drop 3 cs)
      else if take 2 (c # cs) = ''02''
      then appendInt (snd (snd (absDate (abs_of t)))) 2 @ Format t (drop 1 cs)
      else if take 2 (c # cs) = ''15''
      then appendInt (fst (absClock (abs_of t))) 2 @ Format t (drop 1 cs)
      else if take 2 (c # cs) = ''04''
      then appendInt (fst (snd (absClock (abs_of t)))) 2 @ Format t (drop 1 cs)
      else if take 2 (c # cs) = ''05''
      then appendInt (snd (snd (absClock (abs_of t)))) 2 @ Format t (drop 1 cs)
      else c # Format t cs)"

section \<open>Byte slices and readers\<close>

text \<open>
  A Go \<^verbatim>\<open>[]byte\<close>: \<open>elems\<close> are the bytes within its length, \<open>spare\<close> the bytes
  of the backing array between its length and its capacity. A slice expression is
  checked against the capacity when it names its upper bound, and against the length
  when it does not; a failed check panics.
\<close>

record byteSlice =
  elems :: bytes
  spare :: bytes

definition len :: "byteSlice \<Rightarrow> nat" where
  "len s = length (elems s)"

definition cap :: "byteSlice \<Rightarrow> nat" where
  "cap s = length (elems s) + length (spare s)"

text \<open>\<^verbatim>\<open>s[lo:]\<close>\<close>

definition sliceFrom :: "byteSlice \<Rightarrow> int \<Rightarrow> byteSlice go" where
  "sliceFrom s lo =
     (if 0 \<le> lo \<and> lo \<le> int (len s)
      then Returns \<lparr>elems = drop (nat lo) (elems s), spare = spare s\<rparr>
      else Panics)"

text \<open>\<^verbatim>\<open>s[lo:hi]\<close>\<close>

definition sliceRange :: "byteSlice \<Rightarrow> int \<Rightarrow> int \<Rightarrow> byteSlice go" where
  "sliceRange s lo hi =
     (if 0 \<le> lo \<and> lo \<le> hi \<and> hi \<le> int (cap s)
      then Returns \<lparr>elems = take (nat (hi - lo)) (drop (nat lo) (elems s @ spare s)),
                    spare = drop (nat hi) (elems s @ spare s)\<rparr>
      else Panics)"

text \<open>
  An \<^verbatim>\<open>io.Reader\<close>, by what reading it to the end gives: its bytes, and the error
  that ends it if it does not end with EOF.
\<close>

record reader =
  readBytes :: bytes
  readErr :: "error option"

text \<open>
  \<^verbatim>\<open>io.ReadAll\<close>. The buffer it returns is usually longer than what was read;
  \<open>tail\<close> is that unused rest of the buffer, which the allocator and the reader's
  chunking decide.
\<close>

definition ReadAll :: "bytes \<Rightarrow> reader \<Rightarrow> error + byteSlice" where
  "ReadAll tail r =
     (case readErr r of
        Some err \<Rightarrow> Inl err
      | None \<Rightarrow> Inr \<lparr>elems = readBytes r, spare = tail\<rparr>)"

text \<open>\<^verbatim>\<open>io.NopCloser(bytes.NewReader(b))\<close>\<close>

definition bytesReader :: "byteSlice \<Rightarrow> reader" where
  "bytesReader b = \<lparr>readBytes = elems b, readErr = None\<rparr>"

section \<open>Headers, requests and response writers: net/http\<close>

text \<open>The token characters of a header name: digits, letters and
  \<^verbatim>\<open>!#$%&'*+-.^_`|~\<close>.\<close>

definition validHeaderFieldByte :: "char \<Rightarrow> bool" where
  "validHeaderFieldByte c =
     (let b = of_char c :: nat
      in (48 \<le> b \<and> b \<le> 57) \<or> (65 \<le> b \<and> b \<le> 90) \<or> (97 \<le> b \<and> b \<le> 122)
         \<or> b \<in> set [0x21, 0x23, 0x24, 0x25, 0x26, 0x27, 0x2A, 0x2B, 0x2D, 0x2E, 0x5E, 0x5F, 0x60,
                      0x7C, 0x7E])"

text \<open>The first letter and every letter after a hyphen in upper case, the others in
  lower case.\<close>

fun canonicalLoop :: "bool \<Rightarrow> string \<Rightarrow> string" where
  "canonicalLoop upper [] = []"
| "canonicalLoop upper (c # cs) =
     (let b = of_char c :: nat;
          c' = (if upper \<and> 97 \<le> b \<and> b \<le> 122 then char_of (b - 32)
                else if \<not> upper \<and> 65 \<le> b \<and> b \<le> 90 then char_of (b + 32)
                else c)
      in c' # canonicalLoop (c' = CHR ''-'') cs)"

text \<open>\<^verbatim>\<open>textproto.CanonicalMIMEHeaderKey\<close>: a key with a byte that is not a token
  character is left as it is.\<close>

definition CanonicalMIMEHeaderKey :: "string \<Rightarrow> string" where
  "CanonicalMIMEHeaderKey s = (if list_all validHeaderFieldByte s then canonicalLoop True s else s)"

text \<open>\<^verbatim>\<open>http.Header\<close> with its \<^verbatim>\<open>Get\<close>: the first value under the canonical key, or
  the empty string.\<close>

definition Header_Get :: "(string \<rightharpoonup> string list) \<Rightarrow> string \<Rightarrow> string" where
  "Header_Get h key =
     (case h (CanonicalMIMEHeaderKey key) of
        None \<Rightarrow> []
      | Some [] \<Rightarrow> []
      | Some (v # _) \<Rightarrow> v)"

text \<open>The parts of \<^verbatim>\<open>*http.Request\<close> the decoders read; \<open>muxVars\<close> are the route
  variables \<^verbatim>\<open>mux.Vars(r)\<close>.\<close>

record Request =
  httpMethod :: string
  httpHeader :: "string \<rightharpoonup> string list"
  httpBody :: reader
  httpContentLength :: int
  muxVars :: "string \<rightharpoonup> string"

text \<open>Indexing a Go map of strings: a missing key gives the empty string.\<close>

definition mapIndex :: "(string \<rightharpoonup> string) \<Rightarrow> string \<Rightarrow> string" where
  "mapIndex m k = (case m k of None \<Rightarrow> [] | Some v \<Rightarrow> v)"

text \<open>
  \<^verbatim>\<open>http.ResponseWriter\<close>. \<open>header\<close> is the map \<^verbatim>\<open>w.Header()\<close> the
  handler edits; \<open>status\<close> is the status line once it has been written, and
  \<open>sentHeader\<close> the header map as it stood at that moment (later edits are not sent);
  \<open>writeHeaderCalls\<close> lists the codes the handler passed to \<^verbatim>\<open>WriteHeader\<close>
  itself; \<open>body\<close> is what was written.
\<close>

record ResponseWriter =
  header :: "string \<rightharpoonup> string list"
  status :: "nat option"
  sentHeader :: "string \<rightharpoonup> string list"
  writeHeaderCalls :: "nat list"
  body :: bytes

definition newResponseWriter :: ResponseWriter where
  "newResponseWriter =
     \<lparr>header = Map.empty, status = None, sentHeader = Map.empty,
      writeHeaderCalls = [], body = []\<rparr>"

text \<open>The status line is written once; a second \<^verbatim>\<open>WriteHeader\<close> is ignored.\<close>

definition sendStatus :: "nat \<Rightarrow> ResponseWriter \<Rightarrow> ResponseWriter" where
  "sendStatus c w =
     (if status w = None then w\<lparr>status := Some c, sentHeader := header w\<rparr> else w)"

definition WriteHeader :: "nat \<Rightarrow> ResponseWriter \<Rightarrow> ResponseWriter" where
  "WriteHeader c w = sendStatus c (w\<lparr>writeHeaderCalls := writeHeaderCalls w @ [c]\<rparr>)"

text \<open>\<^verbatim>\<open>w.Write(data)\<close>: a write before any status sends status 200 first.\<close>

definition Write :: "bytes \<Rightarrow> ResponseWriter \<Rightarrow> ResponseWriter" where
  "Write data w = (let w' = sendStatus 200 w in w'\<lparr>body := body w' @ data\<rparr>)"

text \<open>When the handler returns without having written anything, the server sends
  status 200.\<close>

definition finishRequest :: "ResponseWriter \<Rightarrow> ResponseWriter" where
  "finishRequest w = sendStatus 200 w"

text \<open>\<^verbatim>\<open>w.Header().Set(k, v)\<close> and \<^verbatim>\<open>w.Header().Add(k, v)\<close>, under the canonical
  key.\<close>

definition Header_Set :: "string \<Rightarrow> string \<Rightarrow> ResponseWriter \<Rightarrow> ResponseWriter" where
  "Header_Set k v w = w\<lparr>header := (header w)(CanonicalMIMEHeaderKey k \<mapsto> [v])\<rparr>"

definition Header_Add :: "string \<Rightarrow> string \<Rightarrow> ResponseWriter \<Rightarrow> ResponseWriter" where
  "Header_Add k v w =
     w\<lparr>header := (header w)(CanonicalMIMEHeaderKey k \<mapsto>
          (case header w (CanonicalMIMEHeaderKey k) of None \<Rightarrow> [] | Some vs \<Rightarrow> vs) @ [v])\<rparr>"

text \<open>An XML encoder flushes its buffer into the writer; an empty buffer is not
  written.\<close>

definition xmlEncode :: "bytes \<Rightarrow> ResponseWriter \<Rightarrow> ResponseWriter" where
  "xmlEncode doc w = (if doc = [] then w else Write doc w)"

definition StatusNotFound :: nat where
  "StatusNotFound = 404"

definition StatusInternalServerError :: nat where
  "StatusInternalServerError = 500"

section \<open>The storage interface and the domain service\<close>

text \<open>The fields of \<^verbatim>\<open>s3.HeadObjectOutput\<close> the program reads; a pointer field that
  may be nil is an option.\<close>

record HeadObjectOutput =
  ContentLength :: int
  ContentType :: "string option"
  ETag :: "string option"
  LastModified :: "Time option"

text \<open>
  The backing-store adapter \<^verbatim>\<open>repository.ObjectStorage\<close>, over the state \<open>'w\<close> of
  the remote provider: each call takes the fields of its input struct and returns its
  result with the provider's new state.
\<close>

record 'w ObjectStorage =
  OS_HeadObject :: "string \<Rightarrow> string \<Rightarrow> 'w \<Rightarrow> (error + HeadObjectOutput) \<times> 'w"
  OS_GetObject :: "string \<Rightarrow> string \<Rightarrow> string \<Rightarrow> 'w \<Rightarrow> (error + reader) \<times> 'w"
  OS_PutObject :: "string \<Rightarrow> string \<Rightarrow> reader \<Rightarrow> int \<Rightarrow> string \<Rightarrow> 'w \<Rightarrow> (error + unit) \<times> 'w"
  OS_DeleteObject :: "string \<Rightarrow> string \<Rightarrow> 'w \<Rightarrow> (error + unit) \<times> 'w"

text \<open>
  The interface \<^verbatim>\<open>CloudStorage\<close>, over the state \<open>'s\<close> behind an implementation.
  An \<^verbatim>\<open>error\<close> result is \<open>None\<close> for nil.
\<close>

record 's CloudStorage =
  CS_CreateBucket :: "string \<Rightarrow> 's \<Rightarrow> error option \<times> 's"
  CS_DeleteBucket :: "string \<Rightarrow> 's \<Rightarrow> error option \<times> 's"
  CS_PutObject ::
    "string \<Rightarrow> string \<Rightarrow> reader \<Rightarrow> int \<Rightarrow> string \<Rightarrow> string \<Rightarrow> 's \<Rightarrow> error option \<times> 's"
  CS_HeadObject :: "string \<Rightarrow> string \<Rightarrow> 's \<Rightarrow> (error + HeadObjectOutput) \<times> 's"
  CS_GetObject :: "string \<Rightarrow> string \<Rightarrow> string \<Rightarrow> 's \<Rightarrow> (error + reader) go \<times> 's"
  CS_DeleteObject :: "string \<Rightarrow> string \<Rightarrow> 's \<Rightarrow> error option \<times> 's"

text \<open>
  The domain service \<^verbatim>\<open>cloudStorageService\<close> over its adapter \<open>os\<close>.
  \<^verbatim>\<open>CreateBucket\<close>, \<^verbatim>\<open>DeleteBucket\<close> and \<^verbatim>\<open>DeleteObject\<close> return nil and do
  nothing else; \<^verbatim>\<open>PutObject\<close>, \<^verbatim>\<open>HeadObject\<close> and \<^verbatim>\<open>GetObject\<close> make one
  adapter call and hand its error or its result on (\<^verbatim>\<open>PutObject\<close> does not pass
  its \<open>sha256\<close> argument).
\<close>

definition cloudStorageService_CreateBucket ::
  "'w ObjectStorage \<Rightarrow> string \<Rightarrow> 'w \<Rightarrow> error option \<times> 'w" where
  "cloudStorageService_CreateBucket os bucketName w = (None, w)"

definition cloudStorageService_DeleteBucket ::
  "'w ObjectStorage \<Rightarrow> string \<Rightarrow> 'w \<Rightarrow> error option \<times> 'w" where
  "cloudStorageService_DeleteBucket os bucketName w = (None, w)"

definition cloudStorageService_PutObject ::
  "'w ObjectStorage \<Rightarrow> string \<Rightarrow> string \<Rightarrow> reader \<Rightarrow> int \<Rightarrow> string \<Rightarrow> string \<Rightarrow> 'w
   \<Rightarrow> error option \<times> 'w" where
  "cloudStorageService_PutObject os bucketName objectKey content contentLength md5 sha256 w =
     (case OS_PutObject os bucketName objectKey content contentLength md5 w of
        (Inl err, w') \<Rightarrow> (Some err, w')
      | (Inr _, w') \<Rightarrow> (None, w'))"

definition cloudStorageService_HeadObject ::
  "'w ObjectStorage \<Rightarrow> string \<Rightarrow> string \<Rightarrow> 'w \<Rightarrow> (error + HeadObjectOutput) \<times> 'w" where
  "cloudStorageService_HeadObject os bucketName objectKey w =
     (case OS_HeadObject os bucketName objectKey w of
        (Inl err, w') \<Rightarrow> (Inl err, w')
      | (Inr metadata, w') \<Rightarrow> (Inr metadata, w'))"

definition cloudStorageService_GetObject ::
  "'w ObjectStorage \<Rightarrow> string \<Rightarrow> string \<Rightarrow> string \<Rightarrow> 'w \<Rightarrow> (error + reader) go \<times> 'w" where
  "cloudStorageService_GetObject os bucketName objectKey contentRange w =
     (case OS_GetObject os bucketName objectKey contentRange w of
        (Inl err, w') \<Rightarrow> (Returns (Inl err), w')
      | (Inr outputBody, w') \<Rightarrow> (Returns (Inr outputBody), w'))"

definition cloudStorageService_DeleteObject ::
  "'w ObjectStorage \<Rightarrow> string \<Rightarrow> string \<Rightarrow> 'w \<Rightarrow> error option \<times> 'w" where
  "cloudStorageService_DeleteObject os bucketName objectKey w = (None, w)"

definition NewCloudStorage :: "'w ObjectStorage \<Rightarrow> 'w CloudStorage" where
  "NewCloudStorage os =
     \<lparr>CS_CreateBucket = cloudStorageService_CreateBucket os,
      CS_DeleteBucket = cloudStorageService_DeleteBucket os,
      CS_PutObject = cloudStorageService_PutObject os,
      CS_HeadObject = cloudStorageService_HeadObject os,
      CS_GetObject = cloudStorageService_GetObject os,
      CS_DeleteObject = cloudStorageService_DeleteObject os\<rparr>"

section \<open>The caching decorator\<close>

text \<open>What the decorator puts into the cache: the bytes of an object, or the
  metadata of a head request.\<close>

datatype cacheValue = Bytes byteSlice | Head HeadObjectOutput

text \<open>
  What a \<^verbatim>\<open>go func() { ... }()\<close> of the decorator will do once it runs: the
  deferred write of a put, with the arguments it captured, or the fetch of a whole
  object after a ranged miss. \<open>SetTask\<close> is an entry that the cache has taken into its
  buffer of pending sets and that the goroutine of the cache has not processed yet.
\<close>

datatype task =
    PutTask string string byteSlice int string string
  | WarmTask string string
  | SetTask string cacheValue

text \<open>
  Modelled from the spec: the cache is an external library, which the spec calls a
  cost-based admission and eviction cache; the program uses its \<^verbatim>\<open>Set\<close>, \<^verbatim>\<open>Get\<close>
  and \<^verbatim>\<open>Del\<close>. \<^verbatim>\<open>Get\<close> finds what is stored and \<^verbatim>\<open>Del\<close> removes the stored
  entry. A \<^verbatim>\<open>Set\<close> does not always store: the cache answers in one of three ways. It
  stores the entry at once (as the library does for a key it already holds) and
  returns true; or it puts the entry into its buffer of pending sets and returns
  true, and the entry becomes visible only when the goroutine of the cache has
  processed it and the admission policy has let it in; or it drops the entry and
  returns false. Which of the three happens, and whether a buffered entry is let in,
  is decided by the library, so both decisions are parameters of the cache.
\<close>

datatype setResult = Stored | Queued | Dropped

type_synonym cache = "string \<rightharpoonup> cacheValue"

text \<open>The decorator's state: the stored entries of its cache, the state behind the
  storage it wraps, the goroutines that have been started and have not run yet, and
  the two decisions of the cache: what a \<^verbatim>\<open>Set\<close> of a key and value does, given the
  stored entries, and whether a buffered entry is let in when it is processed.\<close>

record 'w cachedState =
  cache :: cache
  world :: 'w
  spawned :: "task list"
  setPolicy :: "string \<Rightarrow> cacheValue \<Rightarrow> cache \<Rightarrow> setResult"
  admitPolicy :: "string \<Rightarrow> cacheValue \<Rightarrow> cache \<Rightarrow> bool"

definition cache_Set :: "string \<Rightarrow> cacheValue \<Rightarrow> 'w cachedState \<Rightarrow> bool \<times> 'w cachedState" where
  "cache_Set k v st =
     (case setPolicy st k v (cache st) of
        Stored \<Rightarrow> (True, st\<lparr>cache := (cache st)(k \<mapsto> v)\<rparr>)
      | Queued \<Rightarrow> (True, st\<lparr>spawned := spawned st @ [SetTask k v]\<rparr>)
      | Dropped \<Rightarrow> (False, st))"

definition cache_Get :: "cache \<Rightarrow> string \<Rightarrow> cacheValue option" where
  "cache_Get c k = c k"

definition cache_Del :: "string \<Rightarrow> cache \<Rightarrow> cache" where
  "cache_Del k c = c(k := None)"

text \<open>The goroutine of the cache processes a buffered entry: the entry is stored when
  the admission policy lets it in, and is lost otherwise.\<close>

definition cache_process :: "string \<Rightarrow> cacheValue \<Rightarrow> 'w cachedState \<Rightarrow> 'w cachedState" where
  "cache_process k v st =
     (if admitPolicy st k v (cache st) then st\<lparr>cache := (cache st)(k \<mapsto> v)\<rparr> else st)"

text \<open>\<^verbatim>\<open>parseContentRange\<close> scans \<^verbatim>\<open>bytes=%d-%d\<close> and
  \<^verbatim>\<open>parceContentRangeOpen\<close> scans \<^verbatim>\<open>bytes=%d-\<close>; a scan gives one number for
  each verb, so the last case of each is never taken.\<close>

definition parseContentRange :: "string \<Rightarrow> error + (int \<times> int)" where
  "parseContentRange contentRange =
     (case Sscanf contentRange ''bytes=%d-%d'' of
        Inl err \<Rightarrow> Inl err
      | Inr [start, end] \<Rightarrow> Inr (start, end)
      | Inr _ \<Rightarrow> Inl (ErrorString ''too many operands''))"

definition parceContentRangeOpen :: "string \<Rightarrow> error + int" where
  "parceContentRangeOpen contentRange =
     (case Sscanf contentRange ''bytes=%d-'' of
        Inl err \<Rightarrow> Inl err
      | Inr [start] \<Rightarrow> Inr start
      | Inr _ \<Rightarrow> Inl (ErrorString ''too many operands''))"

text \<open>
  The methods of \<^verbatim>\<open>cachedCloudStorage\<close> over the storage it wraps. \<^verbatim>\<open>PutObject\<close>
  reads the body, hands it to the cache under \<open>bucket/key\<close> without looking at the
  answer of \<^verbatim>\<open>Set\<close>, starts the goroutine that writes to the wrapped storage and
  returns nil. \<^verbatim>\<open>HeadObject\<close> serves metadata cached
  under \<open>head/bucket/key\<close> and otherwise asks the wrapped storage and caches its
  answer. \<open>tail\<close> is the unused rest of the buffer of a \<^verbatim>\<open>ReadAll\<close>.
\<close>

definition cachedCloudStorage_CreateBucket ::
  "'w CloudStorage \<Rightarrow> string \<Rightarrow> 'w cachedState \<Rightarrow> error option \<times> 'w cachedState" where
  "cachedCloudStorage_CreateBucket baseStorage bucketName st =
     (case CS_CreateBucket baseStorage bucketName (world st) of
        (err, w') \<Rightarrow> (err, st\<lparr>world := w'\<rparr>))"

definition cachedCloudStorage_DeleteBucket ::
  "'w CloudStorage \<Rightarrow> string \<Rightarrow> 'w cachedState \<Rightarrow> error option \<times> 'w cachedState" where
  "cachedCloudStorage_DeleteBucket baseStorage bucketName st =
     (case CS_DeleteBucket baseStorage bucketName (world st) of
        (err, w') \<Rightarrow> (err, st\<lparr>world := w'\<rparr>))"

definition cachedCloudStorage_PutObject ::
  "'w CloudStorage \<Rightarrow> bytes \<Rightarrow> string \<Rightarrow> string \<Rightarrow> reader \<Rightarrow> int \<Rightarrow> string \<Rightarrow> string
   \<Rightarrow> 'w cachedState \<Rightarrow> error option \<times> 'w cachedState" where
  "cachedCloudStorage_PutObject baseStorage tail bucketName objectKey content contentLength md5 sha256 st =
     (let cacheKey = bucketName @ ''/'' @ objectKey
      in case ReadAll tail content of
           Inl err \<Rightarrow> (Some err, st)
         | Inr val \<Rightarrow>
             (case cache_Set cacheKey (Bytes val) st of
                (_, st1) \<Rightarrow>
                  (None,
                   st1\<lparr>spawned := spawned st1 @
                         [PutTask bucketName objectKey val contentLength md5 sha256]\<rparr>)))"

definition cachedCloudStorage_HeadObject ::
  "'w CloudStorage \<Rightarrow> string \<Rightarrow> string \<Rightarrow> 'w cachedState
   \<Rightarrow> (error + HeadObjectOutput) \<times> 'w cachedState" where
  "cachedCloudStorage_HeadObject baseStorage bucketName objectKey st =
     (let cacheKey = ''head/'' @ bucketName @ ''/'' @ objectKey
      in case cache_Get (cache st) cacheKey of
           Some (Head ret) \<Rightarrow> (Inr ret, st)
         | _ \<Rightarrow>
             (case CS_HeadObject baseStorage bucketName objectKey (world st) of
                (Inl err, w') \<Rightarrow> (Inl err, st\<lparr>world := w'\<rparr>)
              | (Inr headObjectOutput, w') \<Rightarrow>
                  (case cache_Set cacheKey (Head headObjectOutput) (st\<lparr>world := w'\<rparr>) of
                     (_, st1) \<Rightarrow> (Inr headObjectOutput, st1))))"

text \<open>
  \<^verbatim>\<open>GetObject\<close>. On a hit with a range, the closed form is scanned first and the open
  form if that fails; \<open>end\<close> keeps the zero the failed closed scan returned, and
  \<open>end == 0\<close> selects the slice without an upper bound. The slice expressions may panic.
\<close>

definition cachedCloudStorage_GetObject ::
  "'w CloudStorage \<Rightarrow> bytes \<Rightarrow> string \<Rightarrow> string \<Rightarrow> string \<Rightarrow> 'w cachedState
   \<Rightarrow> (error + reader) go \<times> 'w cachedState" where
  "cachedCloudStorage_GetObject baseStorage tail bucketName objectKey contentRange st =
     (let cacheKey = bucketName @ ''/'' @ objectKey
      in case cache_Get (cache st) cacheKey of
           Some (Bytes ret) \<Rightarrow>
             (if contentRange \<noteq> [] then
                (case (case parseContentRange contentRange of
                         Inr (start, end) \<Rightarrow> Inr (start, end)
                       | Inl _ \<Rightarrow>
                           (case parceContentRangeOpen contentRange of
                              Inr start \<Rightarrow> Inr (start, 0)
                            | Inl err \<Rightarrow> Inl err)) of
                   Inl err \<Rightarrow> (Returns (Inl err), st)
                 | Inr (start, end) \<Rightarrow>
                     (case (if end = 0 then sliceFrom ret start else sliceRange ret start end) of
                        Panics \<Rightarrow> (Panics, st)
                      | Returns ret' \<Rightarrow> (Returns (Inr (bytesReader ret')), st)))
              else (Returns (Inr (bytesReader ret)), st))
         | _ \<Rightarrow>
             (case CS_GetObject baseStorage bucketName objectKey contentRange (world st) of
                (Panics, w') \<Rightarrow> (Panics, st\<lparr>world := w'\<rparr>)
              | (Returns (Inl err), w') \<Rightarrow> (Returns (Inl err), st\<lparr>world := w'\<rparr>)
              | (Returns (Inr object), w') \<Rightarrow>
                  (case ReadAll tail object of
                     Inl err \<Rightarrow> (Returns (Inl err), st\<lparr>world := w'\<rparr>)
                   | Inr val \<Rightarrow>
                       (if contentRange = [] then
                          (case cache_Set cacheKey (Bytes val) (st\<lparr>world := w'\<rparr>) of
                             (_, st1) \<Rightarrow> (Returns (Inr (bytesReader val)), st1))
                        else
                          (Returns (Inr (bytesReader val)),
                           st\<lparr>world := w',
                              spawned := spawned st @ [WarmTask bucketName objectKey]\<rparr>)))))"

text \<open>\<^verbatim>\<open>DeleteObject\<close>: when the wrapped storage returns nil, the entry
  \<open>bucket/key\<close> is deleted from the cache.\<close>

definition cachedCloudStorage_DeleteObject ::
  "'w CloudStorage \<Rightarrow> string \<Rightarrow> string \<Rightarrow> 'w cachedState \<Rightarrow> error option \<times> 'w cachedState" where
  "cachedCloudStorage_DeleteObject baseStorage bucketName objectKey st =
     (case CS_DeleteObject baseStorage bucketName objectKey (world st) of
        (None, w') \<Rightarrow>
          (None, st\<lparr>world := w', cache := cache_Del (bucketName @ ''/'' @ objectKey) (cache st)\<rparr>)
      | (Some err, w') \<Rightarrow> (Some err, st\<lparr>world := w'\<rparr>))"

text \<open>Running a started goroutine: its outcome is only logged, its effect on the state
  stays. For a buffered entry of the cache this is what the program can wait for with
  the \<^verbatim>\<open>Wait\<close> of the cache, which it never calls.\<close>

fun runTask :: "'w CloudStorage \<Rightarrow> bytes \<Rightarrow> task \<Rightarrow> 'w cachedState \<Rightarrow> 'w cachedState" where
  "runTask baseStorage tail (PutTask bucketName objectKey val contentLength md5 sha256) st =
     (case CS_PutObject baseStorage bucketName objectKey (bytesReader val) contentLength md5 sha256
             (world st) of
        (err, w') \<Rightarrow> st\<lparr>world := w'\<rparr>)"
| "runTask baseStorage tail (WarmTask bucketName objectKey) st =
     snd (cachedCloudStorage_GetObject baseStorage tail bucketName objectKey [] st)"
| "runTask baseStorage tail (SetTask k v) st = cache_process k v st"

text \<open>The scheduler runs the \<open>n\<close>-th started goroutine.\<close>

definition runSpawned :: "'w CloudStorage \<Rightarrow> bytes \<Rightarrow> nat \<Rightarrow> 'w cachedState \<Rightarrow> 'w cachedState" where
  "runSpawned baseStorage tail n st =
     (if n < length (spawned st)
      then runTask baseStorage tail (spawned st ! n)
             (st\<lparr>spawned := take n (spawned st) @ drop (Suc n) (spawned st)\<rparr>)
      else st)"

text \<open>The decorator as a \<^verbatim>\<open>CloudStorage\<close>.\<close>

definition NewCachedCloudStorage :: "'w CloudStorage \<Rightarrow> bytes \<Rightarrow> 'w cachedState CloudStorage" where
  "NewCachedCloudStorage baseStorage tail =
     \<lparr>CS_CreateBucket = cachedCloudStorage_CreateBucket baseStorage,
      CS_DeleteBucket = cachedCloudStorage_DeleteBucket baseStorage,
      CS_PutObject = cachedCloudStorage_PutObject baseStorage tail,
      CS_HeadObject = cachedCloudStorage_HeadObject baseStorage,
      CS_GetObject = cachedCloudStorage_GetObject baseStorage tail,
      CS_DeleteObject = cachedCloudStorage_DeleteObject baseStorage\<rparr>"

section \<open>The endpoint layer\<close>

text \<open>\<^verbatim>\<open>APIErrorResponse\<close>, without its XML name.\<close>

record APIErrorResponse =
  Code :: string
  Message :: string
  Key :: string
  BucketName :: string
  Resource :: string
  Region :: string
  RequestID :: string
  HostID :: string

text \<open>The composite literal \<^verbatim>\<open>APIErrorResponse{Code: c, Message: m}\<close>: every
  other field is the empty string.\<close>

definition mkAPIErrorResponse :: "string \<Rightarrow> string \<Rightarrow> APIErrorResponse" where
  "mkAPIErrorResponse c m =
     \<lparr>Code = c, Message = m, Key = [], BucketName = [], Resource = [], Region = [],
      RequestID = [], HostID = []\<rparr>"

text \<open>
  The response values an endpoint hands to the transport: \<^verbatim>\<open>APIErrorResponse\<close>,
  \<^verbatim>\<open>HeadObjectResponse\<close> with its header map, \<^verbatim>\<open>GetObjectResponse\<close> with its
  body, and the empty \<^verbatim>\<open>PutObjectResponse\<close> and \<^verbatim>\<open>DeleteObjectResponse\<close>. A
  header map (\<^verbatim>\<open>map[string]string\<close>) is an association list with distinct keys, in
  the order of the source's literal.
\<close>

datatype response =
    RespAPIError APIErrorResponse
  | RespHeadObject "(string \<times> string) list"
  | RespGetObject reader
  | RespPutObject
  | RespDeleteObject

text \<open>The request values of the endpoints modelled here; the fields
  \<^verbatim>\<open>Bucket\<close>, \<^verbatim>\<open>Key\<close>, \<^verbatim>\<open>Range\<close>, \<^verbatim>\<open>BucketName\<close>, \<^verbatim>\<open>ObjectKey\<close> and
  so on carry a prefix that tells the records apart.\<close>

record HeadObjectRequest =
  reqBucket :: string
  reqKey :: string


text \<open>\<^verbatim>\<open>PutObjectRequest\<close>\<close>

record PutObjectRequest =
  putBucketName :: string
  putObjectKey :: string
  putObjectBody :: reader
  putContentLength :: int
  putContentMD5 :: string
  putChecksumSHA256 :: string

text \<open>The layout the head endpoint passes to \<^verbatim>\<open>Format\<close>.\<close>

definition httpLayout :: string where
  "httpLayout = ''Mon, 02 Jan 2006 15:04:05 GMT''"


definition MakeHeadObjectEndpoint ::
  "'s CloudStorage \<Rightarrow> HeadObjectRequest \<Rightarrow> 's \<Rightarrow> response go \<times> 's" where
  "MakeHeadObjectEndpoint svc req s =
     (case CS_HeadObject svc (reqBucket req) (reqKey req) s of
        (Inl err, s') \<Rightarrow>
          (case as_APIError err of
             Some (code, message) \<Rightarrow> (Returns (RespAPIError (mkAPIErrorResponse code message)), s')
           | None \<Rightarrow>
               (Returns (RespAPIError (mkAPIErrorResponse ''InternalError'' (Error err))), s'))
      | (Inr metadata, s') \<Rightarrow>
          (case ContentType metadata of
             None \<Rightarrow> (Panics, s')
           | Some contentType \<Rightarrow>
               (case ETag metadata of
                  None \<Rightarrow> (Panics, s')
                | Some eTag \<Rightarrow>
                    (case LastModified metadata of
                       None \<Rightarrow> (Panics, s')
                     | Some lastModified \<Rightarrow>
                         (Returns (RespHeadObject
                            [(''Content-Length'', Itoa (ContentLength metadata)),
                             (''Content-Type'', contentType),
                             (''ETag'', eTag),
                             (''Last-Modified'', Format lastModified httpLayout)]),
                          s')))))"

section \<open>The HTTP transport\<close>

text \<open>\<^verbatim>\<open>func (r APIErrorResponse) StatusCode() int\<close>, case by case.\<close>

definition StatusCode :: "APIErrorResponse \<Rightarrow> nat" where
  "StatusCode r =
     (if Code r = ''NotFound'' then StatusNotFound
      else if Code r = ''NoSuchKey'' then StatusNotFound
      else if Code r = ''NoSuchBucket'' then StatusNotFound
      else if Code r = ''InternalError'' then StatusInternalServerError
      else StatusInternalServerError)"

text \<open>The two optional capabilities the encoders probe: \<^verbatim>\<open>StatusCoder\<close> is
  implemented by the error response only, \<^verbatim>\<open>Headerer\<close> by the head response
  only.\<close>

fun asStatusCoder :: "response \<Rightarrow> nat option" where
  "asStatusCoder (RespAPIError r) = Some (StatusCode r)"
| "asStatusCoder _ = None"

fun asHeaderer :: "response \<Rightarrow> (string \<times> string) list option" where
  "asHeaderer (RespHeadObject md) = Some md"
| "asHeaderer _ = None"

definition xmlContentType :: string where
  "xmlContentType = ''application/xml; charset=utf-8''"

text \<open>\<^verbatim>\<open>encodeResponse\<close>; \<open>enc\<close> is the XML marshalling of a response value.\<close>

definition encodeResponse ::
  "(response \<Rightarrow> bytes) \<Rightarrow> ResponseWriter \<Rightarrow> response \<Rightarrow> ResponseWriter" where
  "encodeResponse enc w resp =
     (let w1 = Header_Set ''Content-Type'' xmlContentType w;
          w2 = (case asStatusCoder resp of Some sc \<Rightarrow> WriteHeader sc w1 | None \<Rightarrow> w1);
          w3 = (case asHeaderer resp of
                  Some hs \<Rightarrow> fold (\<lambda>(k, v). Header_Add k v) hs w2
                | None \<Rightarrow> w2)
      in xmlEncode (enc resp) w3)"

text \<open>\<^verbatim>\<open>encodeHeadResponse\<close>: the status and the headers, and no body.\<close>

definition encodeHeadResponse :: "ResponseWriter \<Rightarrow> response \<Rightarrow> ResponseWriter" where
  "encodeHeadResponse w resp =
     (let w2 = (case asStatusCoder resp of Some sc \<Rightarrow> WriteHeader sc w | None \<Rightarrow> w)
      in case asHeaderer resp of
           Some hs \<Rightarrow> fold (\<lambda>(k, v). Header_Add k v) hs w2
         | None \<Rightarrow> w2)"

text \<open>\<^verbatim>\<open>io.Copy(w, body)\<close>: the bytes of the body are written, if there are any; the
  error is the one that ended the body.\<close>

definition io_Copy :: "ResponseWriter \<Rightarrow> reader \<Rightarrow> ResponseWriter \<times> error option" where
  "io_Copy w r = (if readBytes r = [] then w else Write (readBytes r) w, readErr r)"

text \<open>\<^verbatim>\<open>encodeGetObjectResponse\<close>: a response that is not a
  \<^verbatim>\<open>GetObjectResponse\<close> goes to \<^verbatim>\<open>encodeResponse\<close>.\<close>

definition encodeGetObjectResponse ::
  "(response \<Rightarrow> bytes) \<Rightarrow> ResponseWriter \<Rightarrow> response \<Rightarrow> ResponseWriter \<times> error option" where
  "encodeGetObjectResponse enc w resp =
     (case resp of
        RespGetObject rd \<Rightarrow> io_Copy w rd
      | _ \<Rightarrow> (encodeResponse enc w resp, None))"

text \<open>\<^verbatim>\<open>encodeError\<close>; a nil error panics.\<close>

definition encodeError ::
  "(response \<Rightarrow> bytes) \<Rightarrow> error option \<Rightarrow> ResponseWriter \<Rightarrow> ResponseWriter go" where
  "encodeError enc err w =
     (case err of
        None \<Rightarrow> Panics
      | Some e \<Rightarrow>
          (case as_APIError e of
             Some (code, msg) \<Rightarrow>
               (let w1 = WriteHeader StatusNotFound w;
                    w2 = Header_Set ''Content-Type'' xmlContentType w1
                in Returns (xmlEncode (enc (RespAPIError (mkAPIErrorResponse code msg))) w2))
           | None \<Rightarrow>
               (let w2 = Header_Set ''Content-Type'' xmlContentType w
                in Returns (xmlEncode
                     (enc (RespAPIError (mkAPIErrorResponse ''UnknownError'' (Error e)))) w2))))"

text \<open>\<^verbatim>\<open>isRequestSignStreamingV4\<close>\<close>

definition isRequestSignStreamingV4 :: "Request \<Rightarrow> bool" where
  "isRequestSignStreamingV4 r =
     (Header_Get (httpHeader r) ''x-amz-content-sha256'' = ''STREAMING-AWS4-HMAC-SHA256-PAYLOAD''
      \<and> httpMethod r = ''PUT'')"

subsection \<open>The streaming chunked-signature decoder\<close>

text \<open>Hex digits of either case, and the number a string of them denotes.\<close>

definition isHexDigit :: "char \<Rightarrow> bool" where
  "isHexDigit c =
     (let b = of_char c :: nat
      in (48 \<le> b \<and> b \<le> 57) \<or> (65 \<le> b \<and> b \<le> 70) \<or> (97 \<le> b \<and> b \<le> 102))"

definition hexDigitVal :: "char \<Rightarrow> nat" where
  "hexDigitVal c =
     (let b = of_char c :: nat
      in if b \<le> 57 then b - 48 else if b \<le> 70 then b - 55 else b - 87)"

definition hexVal :: "string \<Rightarrow> nat" where
  "hexVal s = foldl (\<lambda>n c. n * 16 + hexDigitVal c) 0 s"

definition CRLF :: string where
  "CRLF = [CHR 0x0D, CHR 0x0A]"

definition errMalformedEncoding :: error where
  "errMalformedEncoding = ErrorString ''malformed chunked encoding''"

text \<open>
  Modelled from the spec: the chunk decoder is not among the sources. A chunk is
  introduced by the line \<^verbatim>\<open><hex-chunk-size>;chunk-signature=<hex-signature>\<close> and
  CRLF. The result is the chunk size and the input after the line.
\<close>

definition parseChunkHeader :: "bytes \<Rightarrow> error + (nat \<times> bytes)" where
  "parseChunkHeader w =
     (let hex = takeWhile isHexDigit w;
          r1 = dropWhile isHexDigit w
      in if hex = [] then Inl errMalformedEncoding
         else if take 17 r1 \<noteq> '';chunk-signature='' then Inl errMalformedEncoding
         else
           (let r2 = dropWhile isHexDigit (drop 17 r1)
            in if take 2 r2 = CRLF then Inr (hexVal hex, drop 2 r2)
               else Inl errMalformedEncoding))"

lemma parseChunkHeader_shorter:
  assumes "parseChunkHeader w = Inr (n, rest)"
  shows "length rest < length w"
proof -
  let ?hex = "takeWhile isHexDigit w" and ?r1 = "dropWhile isHexDigit w"
  let ?r2 = "dropWhile isHexDigit (drop 17 ?r1)"
  from assms have ne: "?hex \<noteq> []" and rest: "rest = drop 2 ?r2"
    by (auto simp: parseChunkHeader_def Let_def split: if_splits)
  have "length rest \<le> length ?r2" using rest by simp
  also have "\<dots> \<le> length (drop 17 ?r1)" by (rule length_dropWhile_le)
  also have "\<dots> \<le> length ?r1" by simp
  also have "\<dots> < length w"
  proof -
    have "length w = length ?hex + length ?r1"
      by (metis length_append takeWhile_dropWhile_id)
    with ne show ?thesis by simp
  qed
  finally show ?thesis .
qed

text \<open>
  Modelled from the spec: after each header line come exactly chunk-size bytes of
  payload and CRLF, repeated until a chunk of size zero; the decoder gives the
  payloads, concatenated, and nothing of the framing. The result is the decoded
  stream as a reader: the bytes decoded, and the error that ends them when the framing
  is malformed or the input ends early.
\<close>

function signV4ChunkedDecode :: "bytes \<Rightarrow> bytes \<times> error option" where
  "signV4ChunkedDecode w =
     (case parseChunkHeader w of
        Inl err \<Rightarrow> ([], Some err)
      | Inr (n, rest) \<Rightarrow>
          if n = 0 then ([], None)
          else if length rest < n then (rest, Some (ErrorString ''unexpected EOF''))
          else if take 2 (drop n rest) \<noteq> CRLF then (take n rest, Some errMalformedEncoding)
          else (case signV4ChunkedDecode (drop (n + 2) rest) of
                  (p, e) \<Rightarrow> (take n rest @ p, e)))"
  by pat_completeness auto
termination
proof (relation "measure length")
  show "wf (measure length)" by simp
next
  fix w :: bytes and x2 and n :: nat and rest :: bytes
  assume "parseChunkHeader w = Inr x2" and "(n, rest) = x2"
  then have "length rest < length w" using parseChunkHeader_shorter[of w n rest] by simp
  then show "(drop (n + 2) rest, w) \<in> measure length" by simp
qed

declare signV4ChunkedDecode.simps [simp del]

text \<open>Modelled from the spec: the reader that unwraps the request body; the
  signatures are not verified.\<close>

definition newSignV4ChunkedReader :: "Request \<Rightarrow> error + reader" where
  "newSignV4ChunkedReader r =
     (case signV4ChunkedDecode (readBytes (httpBody r)) of
        (p, e) \<Rightarrow> Inr \<lparr>readBytes = p, readErr = e\<rparr>)"

text \<open>
  \<^verbatim>\<open>decodePutObjectRequest\<close>: body and content length are the request's own, unless
  the request is a streaming signed upload; then the body is the chunked reader and
  the content length is what \<^verbatim>\<open>strconv.ParseInt\<close> returns for the
  \<^verbatim>\<open>x-amz-decoded-content-length\<close> header, its error dropped.
\<close>

definition decodePutObjectRequest :: "Request \<Rightarrow> error + PutObjectRequest" where
  "decodePutObjectRequest r =
     (if isRequestSignStreamingV4 r then
        (case newSignV4ChunkedReader r of
           Inl err \<Rightarrow> Inl err
         | Inr reader \<Rightarrow>
             Inr \<lparr>putBucketName = mapIndex (muxVars r) ''bucket'',
                  putObjectKey = mapIndex (muxVars r) ''object'',
                  putObjectBody = reader,
                  putContentLength =
                    fst (ParseInt (Header_Get (httpHeader r) ''x-amz-decoded-content-length'')),
                  putContentMD5 = [],
                  putChecksumSHA256 = []\<rparr>)
      else
        Inr \<lparr>putBucketName = mapIndex (muxVars r) ''bucket'',
             putObjectKey = mapIndex (muxVars r) ''object'',
             putObjectBody = httpBody r,
             putContentLength = httpContentLength r,
             putContentMD5 = [],
             putChecksumSHA256 = []\<rparr>)"

section \<open>Notions used to state the properties\<close>

text \<open>A decimal numeral, as a range header or a length header spells it: one or more
  digits; \<open>decVal\<close> is the number it denotes. \<open>noLeadingDigit\<close> holds of what may
  follow a numeral without becoming part of it.\<close>

definition decVal :: "string \<Rightarrow> nat" where
  "decVal ds = foldl (\<lambda>n c. n * 10 + digitVal c) 0 ds"

definition digits :: "string \<Rightarrow> bool" where
  "digits ds = (ds \<noteq> [] \<and> list_all isDigit ds)"

definition noLeadingDigit :: "string \<Rightarrow> bool" where
  "noLeadingDigit s = (case s of [] \<Rightarrow> True | c # _ \<Rightarrow> \<not> isDigit c)"

text \<open>
  What a sender puts on the wire for one chunk: the size as hex digits, the signature,
  the payload. The chunk is correctly framed when the size text is the hex form of the
  payload's length; a chunk of length zero ends the body, so a data chunk has a payload.
\<close>

record chunk =
  sizeText :: string
  chunkSignature :: string
  payload :: bytes

definition wellFramed :: "chunk \<Rightarrow> bool" where
  "wellFramed c =
     (sizeText c \<noteq> [] \<and> list_all isHexDigit (sizeText c)
      \<and> hexVal (sizeText c) = length (payload c) \<and> payload c \<noteq> []
      \<and> list_all isHexDigit (chunkSignature c))"

definition frameChunk :: "chunk \<Rightarrow> bytes" where
  "frameChunk c =
     sizeText c @ '';chunk-signature='' @ chunkSignature c @ CRLF @ payload c @ CRLF"

text \<open>The whole body: the data chunks, the final chunk of size zero, and whatever the
  sender puts after the final chunk's header line.\<close>

definition frameBody :: "chunk list \<Rightarrow> string \<Rightarrow> string \<Rightarrow> bytes \<Rightarrow> bytes" where
  "frameBody cs zeroText finalSignature trailer =
     concat (map frameChunk cs) @ zeroText @ '';chunk-signature='' @ finalSignature @ CRLF @ trailer"

section \<open>Example values\<close>

text \<open>A provider whose state counts the calls it has received: every adapter call
  adds one. It holds no objects.\<close>

definition countingProvider :: "nat ObjectStorage" where
  "countingProvider =
     \<lparr>OS_HeadObject = (\<lambda>b k w. (Inl (APIError ''NotFound'' ''Not Found''), Suc w)),
      OS_GetObject = (\<lambda>b k r w. (Inl (APIError ''NoSuchKey'' ''The specified key does not exist.''), Suc w)),
      OS_PutObject = (\<lambda>b k c n m w. (Inr (), Suc w)),
      OS_DeleteObject = (\<lambda>b k w. (Inr (), Suc w))\<rparr>"

text \<open>A provider that answers a head request with metadata that has no content type.\<close>

definition untypedProvider :: "nat ObjectStorage" where
  "untypedProvider =
     countingProvider\<lparr>OS_HeadObject :=
       (\<lambda>b k w. (Inr \<lparr>ContentLength = 6, ContentType = None, ETag = Some (quote ''abc''),
                       LastModified = Some \<lparr>unixSec = 1445412480, zoneOffset = 0\<rparr>\<rparr>, Suc w))\<rparr>"

text \<open>A cached object of six bytes in a buffer of capacity 512, as \<^verbatim>\<open>io.ReadAll\<close>
  returns for a short body.\<close>

definition exampleObject :: byteSlice where
  "exampleObject = \<lparr>elems = ''abcdef'', spare = replicate 506 (CHR 0x00)\<rparr>"

definition exampleMetadata :: HeadObjectOutput where
  "exampleMetadata =
     \<lparr>ContentLength = 1234, ContentType = Some ''text/plain'', ETag = Some (quote ''abc''),
      LastModified = Some \<lparr>unixSec = 1445412480, zoneOffset = 0\<rparr>\<rparr>"

text \<open>A cache that behaves as the library does when its buffer has room: a \<^verbatim>\<open>Set\<close>
  of a key it holds is stored at once, a \<^verbatim>\<open>Set\<close> of a new key is buffered; and a
  buffered entry is let in when it is processed.\<close>

definition queueNewKeys :: "string \<Rightarrow> cacheValue \<Rightarrow> cache \<Rightarrow> setResult" where
  "queueNewKeys k v c = (case c k of None \<Rightarrow> Queued | Some _ \<Rightarrow> Stored)"

definition admitAll :: "string \<Rightarrow> cacheValue \<Rightarrow> cache \<Rightarrow> bool" where
  "admitAll k v c = True"

definition exampleState :: "nat cachedState" where
  "exampleState =
     \<lparr>cache = [''b/k'' \<mapsto> Bytes exampleObject, ''head/b/k'' \<mapsto> Head exampleMetadata],
      world = 0, spawned = [], setPolicy = queueNewKeys, admitPolicy = admitAll\<rparr>"

text \<open>The decorator at start: nothing cached, no call made, nothing started.\<close>

definition freshState :: "nat cachedState" where
  "freshState =
     \<lparr>cache = Map.empty, world = 0, spawned = [], setPolicy = queueNewKeys,
      admitPolicy = admitAll\<rparr>"

text \<open>An encoder for the examples: the code and the message of an error response
  between tags, and nothing for the other responses.\<close>

definition exampleEncoder :: "response \<Rightarrow> bytes" where
  "exampleEncoder resp =
     (case resp of
        RespAPIError r \<Rightarrow>
          ''<Error><Code>'' @ Code r @ ''</Code><Message>'' @ Message r @ ''</Message></Error>''
      | _ \<Rightarrow> [])"

definition exampleChunks :: "chunk list" where
  "exampleChunks =
     [\<lparr>sizeText = ''5'', chunkSignature = ''ab12'', payload = ''hello''\<rparr>,
      \<lparr>sizeText = ''A'', chunkSignature = ''cd34'', payload = '', good day''\<rparr>]"

definition exampleRequest :: Request where
  "exampleRequest =
     \<lparr>httpMethod = ''PUT'',
      httpHeader = [''X-Amz-Content-Sha256'' \<mapsto> [''STREAMING-AWS4-HMAC-SHA256-PAYLOAD''],
                    ''X-Amz-Decoded-Content-Length'' \<mapsto> [''15'']],
      httpBody = \<lparr>readBytes = frameBody exampleChunks ''0'' ''ef56'' CRLF, readErr = None\<rparr>,
      httpContentLength = 93,
      muxVars = [''bucket'' \<mapsto> ''b'', ''object'' \<mapsto> ''k'']\<rparr>"

section \<open>Lemmas on decimal numbers and scanning\<close>





lemma foldl_dec_ge: "n \<le> foldl (\<lambda>n c. n * 10 + digitVal c) n ds"
proof (induction ds arbitrary: n)
  case Nil
  show ?case by simp
next
  case (Cons c cs)
  have "n \<le> n * 10 + digitVal c" by simp
  also have "\<dots> \<le> foldl (\<lambda>n c. n * 10 + digitVal c) (n * 10 + digitVal c) cs"
    by (rule Cons.IH)
  finally show ?case by simp
qed

lemma ParseUint_loop_digits:
  "list_all isDigit ds \<Longrightarrow> foldl (\<lambda>n c. n * 10 + digitVal c) n ds \<le> maxUint64 \<Longrightarrow>
   ParseUint_loop ds n = Inr (foldl (\<lambda>n c. n * 10 + digitVal c) n ds)"
proof (induction ds arbitrary: n)
  case Nil
  show ?case by simp
next
  case (Cons c cs)
  let ?n1 = "n * 10 + digitVal c"
  have le1: "?n1 \<le> maxUint64"
    using foldl_dec_ge[of ?n1 cs] Cons.prems(2) by simp
  then have lt: "\<not> (maxUint64 div 10 + 1 \<le> n)"
    by (simp add: maxUint64_def)
  have "ParseUint_loop cs ?n1 = Inr (foldl (\<lambda>n c. n * 10 + digitVal c) ?n1 cs)"
    using Cons.IH[of ?n1] Cons.prems by simp
  then show ?case using Cons.prems(1) le1 lt by (simp add: Let_def)
qed

lemma isDigit_not_sign: "isDigit c \<Longrightarrow> c \<noteq> CHR ''+'' \<and> c \<noteq> CHR ''-''"
  by (auto simp: isDigit_def)

lemma ParseInt_digits:
  assumes "digits ds" and "decVal ds < 2 ^ 63"
  shows "ParseInt ds = (int (decVal ds), None)"
proof -
  from assms(1) obtain c cs where ds: "ds = c # cs" and c: "isDigit c"
    by (cases ds) (auto simp: digits_def)
  have sign: "hd ds \<noteq> CHR ''+''" "hd ds \<noteq> CHR ''-''"
    using isDigit_not_sign[OF c] ds by simp_all
  have "decVal ds \<le> maxUint64" using assms(2) by (simp add: maxUint64_def)
  then have "ParseUint_loop ds 0 = Inr (decVal ds)"
    using ParseUint_loop_digits[of ds 0] assms(1) by (simp add: decVal_def digits_def)
  then have pu: "ParseUint ds = (decVal ds, None)"
    using ds by (simp add: ParseUint_def)
  show ?thesis using sign pu assms(2) ds
    by (simp add: ParseInt_def Let_def)
qed





lemma utf8SpaceLen_digit: "isDigit c \<Longrightarrow> utf8SpaceLen (c # cs) = 0"
  by (simp add: utf8SpaceLen_def isDigit_def Let_def)

lemma isDigit_not_newline: "isDigit c \<Longrightarrow> c \<noteq> CHR 0x0D \<and> c \<noteq> CHR 0x0A"
  by (auto simp: isDigit_def)

lemma SkipSpace_digit: "isDigit c \<Longrightarrow> SkipSpace (c # cs) = Inr (c # cs)"
  using isDigit_not_newline[of c] by (simp add: SkipSpace.simps utf8SpaceLen_digit)

lemma takeWhile_digits: "list_all isDigit ds \<Longrightarrow> noLeadingDigit rest \<Longrightarrow>
  takeWhile isDigit (ds @ rest) = ds \<and> dropWhile isDigit (ds @ rest) = rest"
  by (induction ds) (auto simp: noLeadingDigit_def split: list.splits)

lemma scanInt_digits:
  assumes "digits ds" and "decVal ds < 2 ^ 63" and "noLeadingDigit rest"
  shows "scanInt (ds @ rest) = Inr (int (decVal ds), rest)"
proof -
  from assms(1) obtain c cs where ds: "ds = c # cs" and c: "isDigit c"
    by (cases ds) (auto simp: digits_def)
  have sk: "SkipSpace (ds @ rest) = Inr (ds @ rest)"
    using SkipSpace_digit[OF c] ds by simp
  have hd: "hd (ds @ rest) = c" using ds by simp
  have tw: "takeWhile isDigit (ds @ rest) = ds" "dropWhile isDigit (ds @ rest) = rest"
    using takeWhile_digits[of ds rest] assms by (simp_all add: digits_def)
  have ne: "ds @ rest \<noteq> []" using ds by simp
  show ?thesis
    unfolding scanInt_def sk
    using ne hd c isDigit_not_sign[OF c] tw ParseInt_digits[OF assms(1,2)]
    by (simp add: Let_def)
qed

lemma doScanf_VerbD_digits:
  assumes "digits ds" and "decVal ds < 2 ^ 63" and "noLeadingDigit rest"
  shows "doScanf (VerbD # ops) (ds @ rest) =
           (case doScanf ops rest of Inl e \<Rightarrow> Inl e | Inr vs \<Rightarrow> Inr (int (decVal ds) # vs))"
proof -
  from assms(1) obtain c cs where ds: "ds = c # cs" and c: "isDigit c"
    by (cases ds) (auto simp: digits_def)
  have sk: "SkipSpace (ds @ rest) = Inr (ds @ rest)"
    using SkipSpace_digit[OF c] ds by simp
  show ?thesis by (simp add: sk scanInt_digits[OF assms])
qed

lemma fmtOps_closed: "fmtOps ''bytes=%d-%d'' =
  [Lit CHR ''b'', Lit CHR ''y'', Lit CHR ''t'', Lit CHR ''e'', Lit CHR ''s'', Lit CHR ''='',
   VerbD, Lit CHR ''-'', VerbD]"
  by simp

lemma fmtOps_open: "fmtOps ''bytes=%d-'' =
  [Lit CHR ''b'', Lit CHR ''y'', Lit CHR ''t'', Lit CHR ''e'', Lit CHR ''s'', Lit CHR ''='',
   VerbD, Lit CHR ''-'']"
  by simp

lemma noLeadingDigit_dash: "noLeadingDigit (CHR ''-'' # r)"
  by (simp add: noLeadingDigit_def isDigit_def)

lemma noLeadingDigit_Nil: "noLeadingDigit []"
  by (simp add: noLeadingDigit_def)

lemma parseContentRange_closed:
  assumes "digits ds1" "decVal ds1 < 2 ^ 63" "digits ds2" "decVal ds2 < 2 ^ 63"
    and "noLeadingDigit rest"
  shows "parseContentRange (''bytes='' @ ds1 @ ''-'' @ ds2 @ rest) =
           Inr (int (decVal ds1), int (decVal ds2))"
  unfolding parseContentRange_def Sscanf_def fmtOps_closed
  using doScanf_VerbD_digits[OF assms(1,2) noLeadingDigit_dash]
    doScanf_VerbD_digits[OF assms(3,4,5)]
  by simp

lemma parseContentRange_open_fails:
  assumes "digits ds1" "decVal ds1 < 2 ^ 63"
  shows "parseContentRange (''bytes='' @ ds1 @ ''-'') = Inl (ErrorString ''EOF'')"
  unfolding parseContentRange_def Sscanf_def fmtOps_closed
  using doScanf_VerbD_digits[OF assms(1,2) noLeadingDigit_dash]
  by (simp add: scanInt_def SkipSpace.simps(1))

lemma parceContentRangeOpen_open:
  assumes "digits ds1" "decVal ds1 < 2 ^ 63"
  shows "parceContentRangeOpen (''bytes='' @ ds1 @ ''-'' @ rest) = Inr (int (decVal ds1))"
  unfolding parceContentRangeOpen_def Sscanf_def fmtOps_open
  using doScanf_VerbD_digits[OF assms(1,2) noLeadingDigit_dash]
  by simp

lemma digits_examples: "digits ''2''" "digits ''5''" "decVal ''2'' = 2" "decVal ''5'' = 5"
  "digits ''7''" "decVal ''7'' = 7" "digits ''600''" "decVal ''600'' = 600"
  by (simp_all add: digits_def isDigit_def decVal_def digitVal_def)






section \<open>Lemmas on time formatting\<close>







section \<open>Lemmas on the response writer\<close>

lemma status_sendStatus: "status (sendStatus c w) = (if status w = None then Some c else status w)"
  by (simp add: sendStatus_def)

lemma status_Write: "status (Write d w) = (if status w = None then Some 200 else status w)"
  by (simp add: Write_def Let_def sendStatus_def)

lemma status_xmlEncode_written: "status w = Some c \<Longrightarrow> status (xmlEncode d w) = Some c"
  by (simp add: xmlEncode_def status_Write)

lemma status_finish_xmlEncode:
  "status (finishRequest (xmlEncode d w)) = (if status w = None then Some 200 else status w)"
  by (simp add: finishRequest_def xmlEncode_def status_sendStatus status_Write)

lemma calls_xmlEncode: "writeHeaderCalls (xmlEncode d w) = writeHeaderCalls w"
  by (simp add: xmlEncode_def Write_def Let_def sendStatus_def)

lemma body_xmlEncode: "body (xmlEncode d w) = body w @ d"
  by (simp add: xmlEncode_def Write_def Let_def sendStatus_def)

lemma status_encodeResponse_error:
  "status (encodeResponse enc newResponseWriter (RespAPIError r)) = Some (StatusCode r)"
  by (simp add: encodeResponse_def Let_def WriteHeader_def Header_Set_def newResponseWriter_def
      status_xmlEncode_written sendStatus_def)

section \<open>Lemmas on cache hits\<close>

lemma head_key_neq: "''head/'' @ b @ ''/'' @ k \<noteq> b @ ''/'' @ k"
proof
  assume "''head/'' @ b @ ''/'' @ k = b @ ''/'' @ k"
  then have "length (''head/'' @ b @ ''/'' @ k) = length (b @ ''/'' @ k)" by (rule arg_cong)
  then show False by simp
qed

lemma GetObject_hit_range:
  assumes "cache st (b @ ''/'' @ k) = Some (Bytes sl)" and "contentRange \<noteq> []"
  shows "cachedCloudStorage_GetObject baseStorage tail b k contentRange st =
     (case (case parseContentRange contentRange of
              Inr (start, end) \<Rightarrow> Inr (start, end)
            | Inl _ \<Rightarrow>
                (case parceContentRangeOpen contentRange of
                   Inr start \<Rightarrow> Inr (start, 0)
                 | Inl err \<Rightarrow> Inl err)) of
        Inl err \<Rightarrow> (Returns (Inl err), st)
      | Inr (start, end) \<Rightarrow>
          (case (if end = 0 then sliceFrom sl start else sliceRange sl start end) of
             Panics \<Rightarrow> (Panics, st)
           | Returns ret' \<Rightarrow> (Returns (Inr (bytesReader ret')), st)))"
  using assms by (simp add: cachedCloudStorage_GetObject_def cache_Get_def Let_def)

lemma range_closed_nonempty: "''bytes='' @ ds1 @ ''-'' @ ds2 \<noteq> []"
  by simp


lemma exampleState_hit: "cache exampleState (''b'' @ ''/'' @ ''k'') = Some (Bytes exampleObject)"
  by (simp add: exampleState_def)

lemma exampleState_head:
  "cache exampleState (''head/'' @ ''b'' @ ''/'' @ ''k'') = Some (Head exampleMetadata)"
  by (simp add: exampleState_def)

lemma exampleObject_len: "length (elems exampleObject) = 6"
  by (simp add: exampleObject_def)

section \<open>Lemmas on chunk decoding\<close>

lemma takeWhile_stop:
  "list_all P xs \<Longrightarrow> \<not> P y \<Longrightarrow>
   takeWhile P (xs @ y # ys) = xs \<and> dropWhile P (xs @ y # ys) = y # ys"
  by (induction xs) auto

lemma not_hex_semicolon: "\<not> isHexDigit (CHR '';'')"
  by (simp add: isHexDigit_def)

lemma not_hex_CR: "\<not> isHexDigit (CHR 0x0D)"
  by (simp add: isHexDigit_def)

lemma parseChunkHeader_line:
  assumes "hx \<noteq> []" and "list_all isHexDigit hx" and "list_all isHexDigit sg"
  shows "parseChunkHeader (hx @ '';chunk-signature='' @ sg @ CRLF @ rest) = Inr (hexVal hx, rest)"
proof -
  have a: "takeWhile isHexDigit (hx @ '';chunk-signature='' @ sg @ CRLF @ rest) = hx"
    and b: "dropWhile isHexDigit (hx @ '';chunk-signature='' @ sg @ CRLF @ rest) =
            '';chunk-signature='' @ sg @ CRLF @ rest"
    using takeWhile_stop[OF assms(2) not_hex_semicolon, of "''chunk-signature='' @ sg @ CRLF @ rest"]
    by simp_all
  have c: "dropWhile isHexDigit (sg @ CHR 0x0D # CHR 0x0A # rest) = CHR 0x0D # CHR 0x0A # rest"
    using takeWhile_stop[OF assms(3) not_hex_CR, of "CHR 0x0A # rest"] by simp
  show ?thesis
    unfolding parseChunkHeader_def a b using assms(1)
    by (simp add: Let_def c CRLF_def)
qed

lemma decode_frameChunk:
  assumes "wellFramed c"
  shows "signV4ChunkedDecode (frameChunk c @ w) =
           (case signV4ChunkedDecode w of (p, e) \<Rightarrow> (payload c @ p, e))"
proof -
  let ?n = "length (payload c)"
  let ?rest = "payload c @ CRLF @ w"
  have h: "parseChunkHeader (frameChunk c @ w) = Inr (?n, ?rest)"
    using parseChunkHeader_line[of "sizeText c" "chunkSignature c" ?rest] assms
    by (simp add: wellFramed_def frameChunk_def)
  have n: "?n \<noteq> 0" using assms by (simp add: wellFramed_def)
  have t: "take 2 (drop ?n ?rest) = CRLF" by (simp add: CRLF_def)
  have d: "drop (?n + 2) ?rest = w" by (simp add: CRLF_def)
  have k: "take ?n ?rest = payload c" by simp
  have l: "\<not> length ?rest < ?n" by simp
  show ?thesis
    by (subst signV4ChunkedDecode.simps) (simp only: h sum.case prod.case n t d k l if_False not_not simp_thms)
qed

lemma decode_frameChunks:
  assumes "list_all wellFramed cs"
  shows "signV4ChunkedDecode (concat (map frameChunk cs) @ w) =
           (case signV4ChunkedDecode w of (p, e) \<Rightarrow> (concat (map payload cs) @ p, e))"
  using assms
proof (induction cs)
  case Nil
  show ?case by (simp split: prod.splits)
next
  case (Cons c cs)
  then have wf: "wellFramed c" and rest: "list_all wellFramed cs" by simp_all
  show ?case
    using decode_frameChunk[OF wf, of "concat (map frameChunk cs) @ w"] Cons.IH[OF rest]
    by (simp split: prod.splits)
qed

lemma decode_final_chunk:
  assumes "z \<noteq> []" and "list_all isHexDigit z" and "hexVal z = 0" and "list_all isHexDigit sg"
  shows "signV4ChunkedDecode (z @ '';chunk-signature='' @ sg @ CRLF @ trailer) = ([], None)"
  using parseChunkHeader_line[OF assms(1,2,4), of trailer] assms(3)
  by (subst signV4ChunkedDecode.simps) (simp del: append.simps)

lemma decode_frameBody:
  assumes "list_all wellFramed cs"
    and "z \<noteq> []" and "list_all isHexDigit z" and "hexVal z = 0" and "list_all isHexDigit sg"
  shows "signV4ChunkedDecode (frameBody cs z sg trailer) = (concat (map payload cs), None)"
  unfolding frameBody_def
  using decode_frameChunks[OF assms(1), of "z @ '';chunk-signature='' @ sg @ CRLF @ trailer"]
    decode_final_chunk[OF assms(2-5), of trailer]
  by (simp del: append.simps)

lemma decode_independent_of_chunking:
  assumes "list_all wellFramed cs" and "list_all wellFramed cs'"
    and "concat (map payload cs) = concat (map payload cs')"
    and "z \<noteq> []" "list_all isHexDigit z" "hexVal z = 0" "list_all isHexDigit sg"
    and "z' \<noteq> []" "list_all isHexDigit z'" "hexVal z' = 0" "list_all isHexDigit sg'"
  shows "signV4ChunkedDecode (frameBody cs z sg trailer) =
         signV4ChunkedDecode (frameBody cs' z' sg' trailer')"
  using decode_frameBody[OF assms(1,4-7)] decode_frameBody[OF assms(2,8-11)] assms(3) by simp

lemma canonical_content_sha256:
  "CanonicalMIMEHeaderKey ''x-amz-content-sha256'' = ''X-Amz-Content-Sha256''"
  by code_simp

lemma canonical_decoded_content_length:
  "CanonicalMIMEHeaderKey ''x-amz-decoded-content-length'' = ''X-Amz-Decoded-Content-Length''"
  by code_simp

lemma exampleRequest_length:
  "int (length (readBytes (httpBody exampleRequest))) = httpContentLength exampleRequest"
  by (simp add: exampleRequest_def frameBody_def exampleChunks_def frameChunk_def CRLF_def)

section \<open>Put then get\<close>

text \<open>The put of a readable body, for each of the three answers of the cache.\<close>

lemma PutObject_result:
  assumes "readErr content = None"
  shows "cachedCloudStorage_PutObject baseStorage tail b k content n md5 sha256 st =
     (None,
      (case setPolicy st (b @ ''/'' @ k) (Bytes \<lparr>elems = readBytes content, spare = tail\<rparr>)
              (cache st) of
         Stored \<Rightarrow>
           st\<lparr>cache := (cache st)(b @ ''/'' @ k \<mapsto>
                          Bytes \<lparr>elems = readBytes content, spare = tail\<rparr>),
              spawned := spawned st @
                [PutTask b k \<lparr>elems = readBytes content, spare = tail\<rparr> n md5 sha256]\<rparr>
       | Queued \<Rightarrow>
           st\<lparr>spawned := spawned st @
                [SetTask (b @ ''/'' @ k) (Bytes \<lparr>elems = readBytes content, spare = tail\<rparr>),
                 PutTask b k \<lparr>elems = readBytes content, spare = tail\<rparr> n md5 sha256]\<rparr>
       | Dropped \<Rightarrow>
           st\<lparr>spawned := spawned st @
                [PutTask b k \<lparr>elems = readBytes content, spare = tail\<rparr> n md5 sha256]\<rparr>))"
  using assms
  by (simp add: cachedCloudStorage_PutObject_def ReadAll_def cache_Set_def Let_def
      split: setResult.splits)

lemma GetObject_hit_whole:
  assumes "cache st (b @ ''/'' @ k) = Some (Bytes sl)"
  shows "cachedCloudStorage_GetObject baseStorage tail b k [] st =
         (Returns (Inr \<lparr>readBytes = elems sl, readErr = None\<rparr>), st)"
  using assms by (simp add: cachedCloudStorage_GetObject_def cache_Get_def bytesReader_def Let_def)

text \<open>What a get returns depends on the stored entries and on the state behind the
  wrapped storage only.\<close>

lemma GetObject_answer_cong:
  assumes "cache st1 = cache st2" and "world st1 = world st2"
  shows "fst (cachedCloudStorage_GetObject baseStorage tail b k r st1) =
         fst (cachedCloudStorage_GetObject baseStorage tail b k r st2)"
proof -
  have miss: "fst (case CS_GetObject baseStorage b k r (world st2) of
                (Panics, w') \<Rightarrow> (Panics, st1\<lparr>world := w'\<rparr>)
              | (Returns (Inl err), w') \<Rightarrow> (Returns (Inl err), st1\<lparr>world := w'\<rparr>)
              | (Returns (Inr object), w') \<Rightarrow>
                  (case ReadAll tail object of
                     Inl err \<Rightarrow> (Returns (Inl err), st1\<lparr>world := w'\<rparr>)
                   | Inr val \<Rightarrow>
                       (if r = [] then
                          (case cache_Set (b @ ''/'' @ k) (Bytes val) (st1\<lparr>world := w'\<rparr>) of
                             (_, st1) \<Rightarrow> (Returns (Inr (bytesReader val)), st1))
                        else
                          (Returns (Inr (bytesReader val)),
                           st1\<lparr>world := w',
                              spawned := spawned st1 @ [WarmTask b k]\<rparr>))))
     = fst (case CS_GetObject baseStorage b k r (world st2) of
                (Panics, w') \<Rightarrow> (Panics, st2\<lparr>world := w'\<rparr>)
              | (Returns (Inl err), w') \<Rightarrow> (Returns (Inl err), st2\<lparr>world := w'\<rparr>)
              | (Returns (Inr object), w') \<Rightarrow>
                  (case ReadAll tail object of
                     Inl err \<Rightarrow> (Returns (Inl err), st2\<lparr>world := w'\<rparr>)
                   | Inr val \<Rightarrow>
                       (if r = [] then
                          (case cache_Set (b @ ''/'' @ k) (Bytes val) (st2\<lparr>world := w'\<rparr>) of
                             (_, st1) \<Rightarrow> (Returns (Inr (bytesReader val)), st1))
                        else
                          (Returns (Inr (bytesReader val)),
                           st2\<lparr>world := w',
                              spawned := spawned st2 @ [WarmTask b k]\<rparr>))))"
  proof (cases "CS_GetObject baseStorage b k r (world st2)")
    case (Pair x w)
    show ?thesis
    proof (cases x)
      case Panics
      with Pair show ?thesis by simp
    next
      case (Returns y)
      show ?thesis
      proof (cases y)
        case (Inl err)
        with Pair Returns show ?thesis by simp
      next
        case (Inr obj)
        with Pair Returns show ?thesis
          by (cases "ReadAll tail obj") (simp_all split: prod.splits)
      qed
    qed
  qed
  show ?thesis
  proof (cases "cache st2 (b @ ''/'' @ k)")
    case None
    then show ?thesis
      unfolding cachedCloudStorage_GetObject_def cache_Get_def Let_def assms
      using miss by simp
  next
    case (Some v)
    show ?thesis
    proof (cases v)
      case (Bytes ret)
      with Some show ?thesis
        unfolding cachedCloudStorage_GetObject_def cache_Get_def Let_def assms
        by (cases "r = []") (simp_all split: sum.splits prod.splits go.splits)
    next
      case (Head h)
      with Some show ?thesis
        unfolding cachedCloudStorage_GetObject_def cache_Get_def Let_def assms
        using miss by simp
    qed
  qed
qed

text \<open>
  Claim C1. A \<open>PutObject\<close> whose body is read without error hands the bytes to the
  cache under \<open>bucket/key\<close> and returns success before the wrapped storage is called:
  the state behind it is as it was, and the write is the goroutine started last, which
  puts the same bytes when it runs. What a \<open>GetObject\<close> of the same bucket and key
  with no range returns right after the put depends on what the cache did with the
  \<^verbatim>\<open>Set\<close>, whose answer the put does not look at. When the cache stored the entry at
  once, the get returns exactly those bytes from the cache and leaves the state
  untouched. When the cache buffered the entry, the stored entries are those before
  the put and the get answers as it would have before the put; once the buffered
  entry has been processed and let in, still before the write to the wrapped storage,
  the get returns exactly those bytes. When the cache dropped the entry, the stored
  entries are those before the put and the get answers as before the put.
\<close>

theorem C1_put_then_get:
  fixes baseStorage :: "'w CloudStorage"
  assumes "readErr content = None"
  shows "\<exists>st'. cachedCloudStorage_PutObject baseStorage tail b k content n md5 sha256 st = (None, st')
     \<and> world st' = world st
     \<and> (let val = \<lparr>elems = readBytes content, spare = tail\<rparr>;
             key = b @ ''/'' @ k;
             put = PutTask b k val n md5 sha256;
             answer = setPolicy st key (Bytes val) (cache st)
         in last (spawned st') = put
          \<and> world (runSpawned baseStorage tail' (length (spawned st') - 1) st') =
              snd (CS_PutObject baseStorage b k \<lparr>readBytes = readBytes content, readErr = None\<rparr>
                     n md5 sha256 (world st))
          \<and> (answer = Stored \<longrightarrow>
                cache st' = (cache st)(key \<mapsto> Bytes val)
              \<and> spawned st' = spawned st @ [put]
              \<and> cachedCloudStorage_GetObject baseStorage tail' b k [] st' =
                  (Returns (Inr \<lparr>readBytes = readBytes content, readErr = None\<rparr>), st'))
          \<and> (answer = Queued \<longrightarrow>
                cache st' = cache st
              \<and> spawned st' = spawned st @ [SetTask key (Bytes val), put]
              \<and> fst (cachedCloudStorage_GetObject baseStorage tail' b k [] st') =
                  fst (cachedCloudStorage_GetObject baseStorage tail' b k [] st)
              \<and> (admitPolicy st key (Bytes val) (cache st) \<longrightarrow>
                   (\<exists>st''. runSpawned baseStorage tail' (length (spawned st)) st' = st''
                      \<and> world st'' = world st
                      \<and> spawned st'' = spawned st @ [put]
                      \<and> cachedCloudStorage_GetObject baseStorage tail' b k [] st'' =
                          (Returns (Inr \<lparr>readBytes = readBytes content, readErr = None\<rparr>), st''))))
          \<and> (answer = Dropped \<longrightarrow>
                cache st' = cache st
              \<and> spawned st' = spawned st @ [put]
              \<and> fst (cachedCloudStorage_GetObject baseStorage tail' b k [] st') =
                  fst (cachedCloudStorage_GetObject baseStorage tail' b k [] st)))"
proof (cases "setPolicy st (b @ ''/'' @ k) (Bytes \<lparr>elems = readBytes content, spare = tail\<rparr>)
                (cache st)")
  case Stored
  have p: "cachedCloudStorage_PutObject baseStorage tail b k content n md5 sha256 st =
     (None, st\<lparr>cache := (cache st)(b @ ''/'' @ k \<mapsto>
                          Bytes \<lparr>elems = readBytes content, spare = tail\<rparr>),
              spawned := spawned st @
                [PutTask b k \<lparr>elems = readBytes content, spare = tail\<rparr> n md5 sha256]\<rparr>)"
    using PutObject_result[OF assms, of baseStorage tail b k n md5 sha256 st] Stored by simp
  show ?thesis
    unfolding p Let_def using Stored
    by (simp add: runSpawned_def bytesReader_def GetObject_hit_whole split: prod.splits)
next
  case Queued
  have p: "cachedCloudStorage_PutObject baseStorage tail b k content n md5 sha256 st =
     (None, st\<lparr>spawned := spawned st @
                [SetTask (b @ ''/'' @ k) (Bytes \<lparr>elems = readBytes content, spare = tail\<rparr>),
                 PutTask b k \<lparr>elems = readBytes content, spare = tail\<rparr> n md5 sha256]\<rparr>)"
    using PutObject_result[OF assms, of baseStorage tail b k n md5 sha256 st] Queued by simp
  have g: "\<And>sp. fst (cachedCloudStorage_GetObject baseStorage tail' b k [] (st\<lparr>spawned := sp\<rparr>)) =
                 fst (cachedCloudStorage_GetObject baseStorage tail' b k [] st)"
    by (rule GetObject_answer_cong) simp_all
  show ?thesis
    unfolding p Let_def using Queued
    by (simp add: runSpawned_def bytesReader_def cache_process_def GetObject_hit_whole
        g nth_append split: prod.splits)
next
  case Dropped
  have p: "cachedCloudStorage_PutObject baseStorage tail b k content n md5 sha256 st =
     (None, st\<lparr>spawned := spawned st @
                [PutTask b k \<lparr>elems = readBytes content, spare = tail\<rparr> n md5 sha256]\<rparr>)"
    using PutObject_result[OF assms, of baseStorage tail b k n md5 sha256 st] Dropped by simp
  have g: "\<And>sp. fst (cachedCloudStorage_GetObject baseStorage tail' b k [] (st\<lparr>spawned := sp\<rparr>)) =
                 fst (cachedCloudStorage_GetObject baseStorage tail' b k [] st)"
    by (rule GetObject_answer_cong) simp_all
  show ?thesis
    unfolding p Let_def using Dropped
    by (simp add: runSpawned_def bytesReader_def g split: prod.splits)
qed

text \<open>The three answers of the cache on the counting provider. On the fresh state
  the key is new and the entry is buffered: the get right after the put is answered
  by the provider, and the get after the entry has been processed returns the body
  with the provider called once, by the get that missed. On the example state the key
  is held and the entry is stored at once. With a cache that drops every \<^verbatim>\<open>Set\<close>
  the stored entries stay empty.\<close>

theorem C1_put_then_get_witness:
  "(\<exists>st'. cachedCloudStorage_PutObject (NewCloudStorage countingProvider) [] ''b'' ''k''
            \<lparr>readBytes = ''hello'', readErr = None\<rparr> 5 [] [] freshState = (None, st')
         \<and> world st' = 0
         \<and> cache st' = Map.empty
         \<and> world (runSpawned (NewCloudStorage countingProvider) [] 1 st') = 1
         \<and> cachedCloudStorage_GetObject (NewCloudStorage countingProvider) [] ''b'' ''k'' []
             (runSpawned (NewCloudStorage countingProvider) [] 0 st') =
             (Returns (Inr \<lparr>readBytes = ''hello'', readErr = None\<rparr>),
              runSpawned (NewCloudStorage countingProvider) [] 0 st'))
   \<and> (\<exists>st'. cachedCloudStorage_PutObject (NewCloudStorage countingProvider) [] ''b'' ''k''
            \<lparr>readBytes = ''hello'', readErr = None\<rparr> 5 [] [] exampleState = (None, st')
         \<and> world st' = 0
         \<and> cachedCloudStorage_GetObject (NewCloudStorage countingProvider) [] ''b'' ''k'' [] st' =
             (Returns (Inr \<lparr>readBytes = ''hello'', readErr = None\<rparr>), st'))
   \<and> (\<exists>st'. cachedCloudStorage_PutObject (NewCloudStorage countingProvider) [] ''b'' ''k''
            \<lparr>readBytes = ''hello'', readErr = None\<rparr> 5 [] []
            (freshState\<lparr>setPolicy := (\<lambda>k v c. Dropped)\<rparr>) = (None, st')
         \<and> world st' = 0
         \<and> cache st' = Map.empty)"
proof -
  have r: "readErr \<lparr>readBytes = ''hello'', readErr = None\<rparr> = None" by simp
  have 1: "setPolicy freshState (''b'' @ ''/'' @ ''k'')
             (Bytes \<lparr>elems = readBytes \<lparr>readBytes = ''hello'', readErr = None\<rparr>, spare = []\<rparr>)
             (cache freshState) = Queued"
    by (simp add: freshState_def queueNewKeys_def)
  have a: "admitPolicy freshState (''b'' @ ''/'' @ ''k'')
             (Bytes \<lparr>elems = readBytes \<lparr>readBytes = ''hello'', readErr = None\<rparr>, spare = []\<rparr>)
             (cache freshState)"
    by (simp add: freshState_def admitAll_def)
  have 2: "setPolicy exampleState (''b'' @ ''/'' @ ''k'')
             (Bytes \<lparr>elems = readBytes \<lparr>readBytes = ''hello'', readErr = None\<rparr>, spare = []\<rparr>)
             (cache exampleState) = Stored"
    by (simp add: exampleState_def queueNewKeys_def)
  have 3: "setPolicy (freshState\<lparr>setPolicy := (\<lambda>k v c. Dropped)\<rparr>) (''b'' @ ''/'' @ ''k'')
             (Bytes \<lparr>elems = readBytes \<lparr>readBytes = ''hello'', readErr = None\<rparr>, spare = []\<rparr>)
             (cache (freshState\<lparr>setPolicy := (\<lambda>k v c. Dropped)\<rparr>)) = Dropped"
    by simp
  have w: "world freshState = 0" "cache freshState = Map.empty" "spawned freshState = []"
    "world exampleState = 0"
    by (simp_all add: freshState_def exampleState_def)
  have p: "\<And>w. snd (CS_PutObject (NewCloudStorage countingProvider) ''b'' ''k''
                  \<lparr>readBytes = ''hello'', readErr = None\<rparr> 5 [] [] w) = Suc w"
    by (simp add: NewCloudStorage_def cloudStorageService_PutObject_def countingProvider_def)
  from C1_put_then_get [OF r, of "NewCloudStorage countingProvider" "[]" "''b''" "''k''" 5
      "[]" "[]" freshState "[]"]
  have A: "\<exists>st'. cachedCloudStorage_PutObject (NewCloudStorage countingProvider) [] ''b'' ''k''
            \<lparr>readBytes = ''hello'', readErr = None\<rparr> 5 [] [] freshState = (None, st')
         \<and> world st' = 0
         \<and> cache st' = Map.empty
         \<and> world (runSpawned (NewCloudStorage countingProvider) [] 1 st') = 1
         \<and> cachedCloudStorage_GetObject (NewCloudStorage countingProvider) [] ''b'' ''k'' []
             (runSpawned (NewCloudStorage countingProvider) [] 0 st') =
             (Returns (Inr \<lparr>readBytes = ''hello'', readErr = None\<rparr>),
              runSpawned (NewCloudStorage countingProvider) [] 0 st')"
    unfolding Let_def 1 using a by (auto simp: w p)
  from C1_put_then_get [OF r, of "NewCloudStorage countingProvider" "[]" "''b''" "''k''" 5
      "[]" "[]" exampleState "[]"]
  have B: "\<exists>st'. cachedCloudStorage_PutObject (NewCloudStorage countingProvider) [] ''b'' ''k''
            \<lparr>readBytes = ''hello'', readErr = None\<rparr> 5 [] [] exampleState = (None, st')
         \<and> world st' = 0
         \<and> cachedCloudStorage_GetObject (NewCloudStorage countingProvider) [] ''b'' ''k'' [] st' =
             (Returns (Inr \<lparr>readBytes = ''hello'', readErr = None\<rparr>), st')"
    unfolding Let_def 2 by (auto simp: w)
  from C1_put_then_get [OF r, of "NewCloudStorage countingProvider" "[]" "''b''" "''k''" 5
      "[]" "[]" "freshState\<lparr>setPolicy := (\<lambda>k v c. Dropped)\<rparr>" "[]"]
  have C: "\<exists>st'. cachedCloudStorage_PutObject (NewCloudStorage countingProvider) [] ''b'' ''k''
            \<lparr>readBytes = ''hello'', readErr = None\<rparr> 5 [] []
            (freshState\<lparr>setPolicy := (\<lambda>k v c. Dropped)\<rparr>) = (None, st')
         \<and> world st' = 0
         \<and> cache st' = Map.empty"
    unfolding Let_def 3 by (auto simp: w)
  from A B C show ?thesis by blast
qed

text \<open>The claim as worded fails on the fresh decorator over the counting provider,
  with a cache that buffers the \<^verbatim>\<open>Set\<close> of a new key: the put returns success, and
  the get right after it misses the cache and returns the provider's answer that there
  is no such key, not the five bytes that were put.\<close>

theorem C1_counterexample_buffered_set:
  "fst (cachedCloudStorage_PutObject (NewCloudStorage countingProvider) [] ''b'' ''k''
          \<lparr>readBytes = ''hello'', readErr = None\<rparr> 5 [] [] freshState) = None
   \<and> fst (cachedCloudStorage_GetObject (NewCloudStorage countingProvider) [] ''b'' ''k'' []
          (snd (cachedCloudStorage_PutObject (NewCloudStorage countingProvider) [] ''b'' ''k''
                  \<lparr>readBytes = ''hello'', readErr = None\<rparr> 5 [] [] freshState))) =
       Returns (Inl (APIError ''NoSuchKey'' ''The specified key does not exist.''))"
  by (simp add: cachedCloudStorage_PutObject_def cachedCloudStorage_GetObject_def ReadAll_def
      cache_Set_def cache_Get_def Let_def freshState_def queueNewKeys_def NewCloudStorage_def
      cloudStorageService_GetObject_def countingProvider_def)

section \<open>Ranges on a cache hit\<close>




text \<open>
  The upper bound of a closed range is checked against the capacity of the cached
  buffer, not against the object's length: a range that ends past the object but within
  the buffer returns bytes that are not the object's. And the scans read a prefix of
  the range string: text after the matched part is ignored.
\<close>

lemma range_past_length_example:
  "cachedCloudStorage_GetObject (NewCloudStorage countingProvider) [] ''b'' ''k'' ''bytes=2-9''
     exampleState =
     (Returns (Inr \<lparr>readBytes = ''cdef'' @ replicate 3 (CHR 0x00), readErr = None\<rparr>), exampleState)"
proof -
  have p: "parseContentRange ''bytes=2-9'' = Inr (2, 9)"
    by (simp add: parseContentRange_def Sscanf_def scanInt_def SkipSpace.simps utf8SpaceLen_def
        isDigit_def ParseInt_def ParseUint_def digitVal_def maxUint64_def Let_def)
  have ne: "''bytes=2-9'' \<noteq> []" by simp
  show ?thesis
    by (simp add: GetObject_hit_range[OF exampleState_hit ne] p sliceRange_def cap_def
        bytesReader_def exampleObject_def)
qed

lemma range_trailing_text_example:
  "cachedCloudStorage_GetObject (NewCloudStorage countingProvider) [] ''b'' ''k'' ''bytes=2-x''
     exampleState = (Returns (Inr \<lparr>readBytes = ''cdef'', readErr = None\<rparr>), exampleState)"
proof -
  have p: "parseContentRange ''bytes=2-x'' = Inl (ErrorString ''expected integer'')"
    by (simp add: parseContentRange_def Sscanf_def scanInt_def SkipSpace.simps utf8SpaceLen_def
        isDigit_def ParseInt_def ParseUint_def digitVal_def maxUint64_def Let_def)
  have q: "parceContentRangeOpen ''bytes=2-x'' = Inr 2"
    by (simp add: parceContentRangeOpen_def Sscanf_def scanInt_def SkipSpace.simps utf8SpaceLen_def
        isDigit_def ParseInt_def ParseUint_def digitVal_def maxUint64_def Let_def)
  have ne: "''bytes=2-x'' \<noteq> []" by simp
  show ?thesis
    by (simp add: GetObject_hit_range[OF exampleState_hit ne] p q sliceFrom_def len_def
        bytesReader_def exampleObject_def)
qed

section \<open>Delete and the cached metadata\<close>

text \<open>
  Claim C3. When the wrapped storage's \<open>DeleteObject\<close> succeeds, the decorator
  returns success and removes the cache entry \<open>bucket/key\<close> and no other: the entry
  \<open>head/bucket/key\<close> is as before. A following \<open>GetObject\<close> finds no cache entry
  and asks the wrapped storage (an error of the storage is what it returns), while a
  following \<open>HeadObject\<close> still returns metadata that was cached before the delete.
\<close>

theorem C3_delete_keeps_head_entry:
  assumes "fst (CS_DeleteObject baseStorage b k (world st)) = None"
  shows "\<exists>st'. cachedCloudStorage_DeleteObject baseStorage b k st = (None, st')
         \<and> cache st' = (cache st)(b @ ''/'' @ k := None)
         \<and> cache st' (''head/'' @ b @ ''/'' @ k) = cache st (''head/'' @ b @ ''/'' @ k)
         \<and> cache_Get (cache st') (b @ ''/'' @ k) = None
         \<and> (\<forall>err w2. CS_GetObject baseStorage b k contentRange (world st') = (Returns (Inl err), w2)
               \<longrightarrow> cachedCloudStorage_GetObject baseStorage tail b k contentRange st' =
                     (Returns (Inl err), st'\<lparr>world := w2\<rparr>))
         \<and> (\<forall>md. cache st (''head/'' @ b @ ''/'' @ k) = Some (Head md)
               \<longrightarrow> cachedCloudStorage_HeadObject baseStorage b k st' = (Inr md, st'))"
proof -
  obtain e w' where d: "CS_DeleteObject baseStorage b k (world st) = (e, w')"
    by (cases "CS_DeleteObject baseStorage b k (world st)")
  with assms have e: "e = None" by simp
  let ?st' = "st\<lparr>world := w', cache := cache_Del (b @ ''/'' @ k) (cache st)\<rparr>"
  have r: "cachedCloudStorage_DeleteObject baseStorage b k st = (None, ?st')"
    by (simp add: cachedCloudStorage_DeleteObject_def d e)
  have c: "cache ?st' = (cache st)(b @ ''/'' @ k := None)"
    by (simp add: cache_Del_def)
  have h: "cache ?st' (''head/'' @ b @ ''/'' @ k) = cache st (''head/'' @ b @ ''/'' @ k)"
    using head_key_neq[of b k] by (simp add: cache_Del_def)
  have m: "cache_Get (cache ?st') (b @ ''/'' @ k) = None"
    by (simp add: cache_Get_def cache_Del_def)
  have g: "\<forall>err w2. CS_GetObject baseStorage b k contentRange (world ?st') = (Returns (Inl err), w2)
               \<longrightarrow> cachedCloudStorage_GetObject baseStorage tail b k contentRange ?st' =
                     (Returns (Inl err), ?st'\<lparr>world := w2\<rparr>)"
    using m by (simp add: cachedCloudStorage_GetObject_def Let_def)
  have hd: "\<forall>md. cache st (''head/'' @ b @ ''/'' @ k) = Some (Head md)
               \<longrightarrow> cachedCloudStorage_HeadObject baseStorage b k ?st' = (Inr md, ?st')"
    using h by (simp add: cachedCloudStorage_HeadObject_def Let_def cache_Get_def)
  from r c h m g hd show ?thesis by blast
qed

text \<open>On the example state, which holds both entries for \<open>b/k\<close>.\<close>

theorem C3_delete_keeps_head_entry_witness:
  "\<exists>st'. cachedCloudStorage_DeleteObject (NewCloudStorage countingProvider) ''b'' ''k''
            exampleState = (None, st')
      \<and> cache st' ''b/k'' = None
      \<and> cache st' ''head/b/k'' = Some (Head exampleMetadata)
      \<and> fst (cachedCloudStorage_GetObject (NewCloudStorage countingProvider) [] ''b'' ''k'' [] st') =
          Returns (Inl (APIError ''NoSuchKey'' ''The specified key does not exist.''))
      \<and> cachedCloudStorage_HeadObject (NewCloudStorage countingProvider) ''b'' ''k'' st' =
          (Inr exampleMetadata, st')"
proof -
  have d: "fst (CS_DeleteObject (NewCloudStorage countingProvider) ''b'' ''k'' (world exampleState))
             = None"
    by (simp add: NewCloudStorage_def cloudStorageService_DeleteObject_def)
  from C3_delete_keeps_head_entry [OF d, where contentRange = "[]" and tail = "[]"]
  obtain st' where
    r: "cachedCloudStorage_DeleteObject (NewCloudStorage countingProvider) ''b'' ''k''
          exampleState = (None, st')"
    and c: "cache st' = (cache exampleState)(''b'' @ ''/'' @ ''k'' := None)"
    and g: "\<forall>err w2. CS_GetObject (NewCloudStorage countingProvider) ''b'' ''k'' [] (world st') =
               (Returns (Inl err), w2) \<longrightarrow>
             cachedCloudStorage_GetObject (NewCloudStorage countingProvider) [] ''b'' ''k'' [] st' =
               (Returns (Inl err), st'\<lparr>world := w2\<rparr>)"
    and h: "\<forall>md. cache exampleState (''head/'' @ ''b'' @ ''/'' @ ''k'') = Some (Head md) \<longrightarrow>
             cachedCloudStorage_HeadObject (NewCloudStorage countingProvider) ''b'' ''k'' st' =
               (Inr md, st')"
    by blast
  have base: "CS_GetObject (NewCloudStorage countingProvider) ''b'' ''k'' [] (world st') =
      (Returns (Inl (APIError ''NoSuchKey'' ''The specified key does not exist.'')), Suc (world st'))"
    by (simp add: NewCloudStorage_def cloudStorageService_GetObject_def countingProvider_def)
  have c1: "cache st' ''b/k'' = None" using c by simp
  have c2: "cache st' ''head/b/k'' = Some (Head exampleMetadata)"
    using c by (simp add: exampleState_def)
  have g1: "fst (cachedCloudStorage_GetObject (NewCloudStorage countingProvider) [] ''b'' ''k'' [] st') =
          Returns (Inl (APIError ''NoSuchKey'' ''The specified key does not exist.''))"
    using g base by simp
  have h1: "cachedCloudStorage_HeadObject (NewCloudStorage countingProvider) ''b'' ''k'' st' =
          (Inr exampleMetadata, st')"
    using h exampleState_head by blast
  from r c1 c2 g1 h1 show ?thesis by blast
qed

section \<open>Status of error responses\<close>

text \<open>
  Claim C4. The status of an error response is 404 when its code is NotFound,
  NoSuchKey or NoSuchBucket, and 500 for InternalError and every other code; and each
  of the three response encoders, given an error response and a writer whose status is
  still unwritten, writes exactly that status.
\<close>

theorem C4_error_status_mapping:
  "StatusCode r =
     (if Code r \<in> {''NotFound'', ''NoSuchKey'', ''NoSuchBucket''} then 404 else 500)
   \<and> status (encodeResponse enc newResponseWriter (RespAPIError r)) = Some (StatusCode r)
   \<and> writeHeaderCalls (encodeResponse enc newResponseWriter (RespAPIError r)) = [StatusCode r]
   \<and> status (fst (encodeGetObjectResponse enc newResponseWriter (RespAPIError r))) =
       Some (StatusCode r)
   \<and> status (encodeHeadResponse newResponseWriter (RespAPIError r)) = Some (StatusCode r)"
  by (simp add: StatusCode_def StatusNotFound_def StatusInternalServerError_def
      encodeResponse_def encodeGetObjectResponse_def encodeHeadResponse_def Let_def
      WriteHeader_def Header_Set_def newResponseWriter_def
      status_xmlEncode_written calls_xmlEncode sendStatus_def)

text \<open>For example, NoSuchKey is sent with 404 and AccessDenied with 500.\<close>

lemma status_examples:
  "status (encodeResponse exampleEncoder newResponseWriter
     (RespAPIError (mkAPIErrorResponse ''NoSuchKey'' ''The specified key does not exist.''))) = Some 404
   \<and> status (encodeResponse exampleEncoder newResponseWriter
     (RespAPIError (mkAPIErrorResponse ''AccessDenied'' ''Access Denied''))) = Some 500"
  by (simp add: status_encodeResponse_error StatusCode_def mkAPIErrorResponse_def
      StatusNotFound_def StatusInternalServerError_def)

section \<open>Status of decode errors\<close>

text \<open>
  Claim C5. A decode error reaches \<open>encodeError\<close> on a writer whose status is still
  unwritten. When the error carries a provider error code and message, status 404 is
  written whatever the code is; otherwise the handler writes no status, the response
  goes out with status 200, and the body is the error document with code UnknownError.
\<close>

theorem C5_decode_error_status:
  "\<exists>w. encodeError enc (Some e) newResponseWriter = Returns w \<and>
     (case as_APIError e of
        Some (code, msg) \<Rightarrow>
          writeHeaderCalls w = [404] \<and> status w = Some 404 \<and>
          status (finishRequest w) = Some 404 \<and>
          body w = enc (RespAPIError (mkAPIErrorResponse code msg))
      | None \<Rightarrow>
          writeHeaderCalls w = [] \<and> status (finishRequest w) = Some 200 \<and>
          body w = enc (RespAPIError (mkAPIErrorResponse ''UnknownError'' (Error e))))"
proof (cases "as_APIError e")
  case None
  then show ?thesis
    by (simp add: encodeError_def Let_def Header_Set_def newResponseWriter_def
        calls_xmlEncode body_xmlEncode status_finish_xmlEncode)
next
  case (Some cm)
  obtain code msg where cm: "cm = (code, msg)" by (cases cm)
  have st: "status (WriteHeader StatusNotFound newResponseWriter) = Some 404"
    by (simp add: WriteHeader_def sendStatus_def newResponseWriter_def StatusNotFound_def)
  have calls: "writeHeaderCalls (WriteHeader StatusNotFound newResponseWriter) = [404]"
    by (simp add: WriteHeader_def sendStatus_def newResponseWriter_def StatusNotFound_def)
  have bd: "body (WriteHeader StatusNotFound newResponseWriter) = []"
    by (simp add: WriteHeader_def sendStatus_def newResponseWriter_def)
  from Some cm st calls bd show ?thesis
    by (simp add: encodeError_def Let_def Header_Set_def calls_xmlEncode body_xmlEncode
        status_finish_xmlEncode status_xmlEncode_written)
qed

text \<open>The two paths disagree on the same error code: an InternalError is sent with 404
  by the decode-error path, and with 500 by the endpoint path. An error that is not a
  provider error goes out with status 200.\<close>

theorem C5_decode_error_status_witness:
  "(\<exists>w. encodeError exampleEncoder
          (Some (Wrapped ''operation error S3'' (APIError ''InternalError'' ''boom'')))
          newResponseWriter = Returns w \<and> status w = Some 404)
   \<and> (\<exists>w. encodeError exampleEncoder (Some (ErrorString ''malformed chunked encoding''))
          newResponseWriter = Returns w \<and> writeHeaderCalls w = []
          \<and> status (finishRequest w) = Some 200)
   \<and> StatusCode (mkAPIErrorResponse ''InternalError'' ''boom'') = 500"
  using C5_decode_error_status
      [of exampleEncoder "Wrapped ''operation error S3'' (APIError ''InternalError'' ''boom'')"]
    C5_decode_error_status [of exampleEncoder "ErrorString ''malformed chunked encoding''"]
  by (auto simp: StatusCode_def mkAPIErrorResponse_def StatusInternalServerError_def)

section \<open>The no-op operations of the domain service\<close>

text \<open>
  Claim C6. The domain service's \<open>DeleteObject\<close>, \<open>CreateBucket\<close> and
  \<open>DeleteBucket\<close> return success with the provider's state unchanged, whatever the
  adapter is: no adapter call is made. So the decorator's \<open>DeleteObject\<close> over the
  domain service always sees success, and removes the body entry.
\<close>

theorem C6_service_noops:
  "cloudStorageService_DeleteObject os b k w = (None, w)
   \<and> cloudStorageService_CreateBucket os b w = (None, w)
   \<and> cloudStorageService_DeleteBucket os b w = (None, w)
   \<and> cachedCloudStorage_DeleteObject (NewCloudStorage os) b k st =
       (None, st\<lparr>cache := (cache st)(b @ ''/'' @ k := None)\<rparr>)"
  by (simp add: cloudStorageService_DeleteObject_def cloudStorageService_CreateBucket_def
      cloudStorageService_DeleteBucket_def cachedCloudStorage_DeleteObject_def
      NewCloudStorage_def cache_Del_def)

text \<open>On the counting provider: a delete through the service leaves the count of
  provider calls at 0, a put through the service makes it 1.\<close>

lemma counting_example:
  "snd (cloudStorageService_DeleteObject countingProvider ''b'' ''k'' 0) = 0
   \<and> snd (cloudStorageService_PutObject countingProvider ''b'' ''k''
            \<lparr>readBytes = ''x'', readErr = None\<rparr> 1 [] [] 0) = 1"
  by (simp add: cloudStorageService_DeleteObject_def cloudStorageService_PutObject_def
      countingProvider_def)

section \<open>Streaming signed uploads\<close>

text \<open>
  Claim C7. For a PUT request whose \<^verbatim>\<open>x-amz-content-sha256\<close> header is
  \<^verbatim>\<open>STREAMING-AWS4-HMAC-SHA256-PAYLOAD\<close>, decoding succeeds; the content length of
  the decoded request is the number parsed from the \<^verbatim>\<open>x-amz-decoded-content-length\<close>
  header, not the length of the request, and its body is the request body unwrapped
  by the chunk decoder. When the request body is correctly framed, in whatever chunks,
  and the header gives the length \<open>L\<close> of the payload in decimal digits, the decoded
  body is exactly the \<open>L\<close> bytes of the payload and the content length is \<open>L\<close>.
\<close>

theorem C7_streaming_put_decoding:
  assumes "isRequestSignStreamingV4 r"
  shows "\<exists>req. decodePutObjectRequest r = Inr req
     \<and> putContentLength req =
         fst (ParseInt (Header_Get (httpHeader r) ''x-amz-decoded-content-length''))
     \<and> putObjectBody req =
         (case signV4ChunkedDecode (readBytes (httpBody r)) of
            (p, e) \<Rightarrow> \<lparr>readBytes = p, readErr = e\<rparr>)
     \<and> (list_all wellFramed cs \<and> z \<noteq> [] \<and> list_all isHexDigit z \<and> hexVal z = 0
          \<and> list_all isHexDigit sg
          \<and> readBytes (httpBody r) = frameBody cs z sg trailer
          \<and> digits ds \<and> decVal ds = length (concat (map payload cs)) \<and> decVal ds < 2 ^ 63
          \<and> Header_Get (httpHeader r) ''x-amz-decoded-content-length'' = ds
        \<longrightarrow> putObjectBody req = \<lparr>readBytes = concat (map payload cs), readErr = None\<rparr>
            \<and> putContentLength req = int (length (readBytes (putObjectBody req))))"
proof -
  let ?req = "\<lparr>putBucketName = mapIndex (muxVars r) ''bucket'',
                putObjectKey = mapIndex (muxVars r) ''object'',
                putObjectBody = (case signV4ChunkedDecode (readBytes (httpBody r)) of
                                   (p, e) \<Rightarrow> \<lparr>readBytes = p, readErr = e\<rparr>),
                putContentLength =
                  fst (ParseInt (Header_Get (httpHeader r) ''x-amz-decoded-content-length'')),
                putContentMD5 = [], putChecksumSHA256 = []\<rparr>"
  have d: "decodePutObjectRequest r = Inr ?req"
    using assms
    by (simp add: decodePutObjectRequest_def newSignV4ChunkedReader_def split: prod.splits)
  have f: "list_all wellFramed cs \<and> z \<noteq> [] \<and> list_all isHexDigit z \<and> hexVal z = 0
          \<and> list_all isHexDigit sg
          \<and> readBytes (httpBody r) = frameBody cs z sg trailer
          \<and> digits ds \<and> decVal ds = length (concat (map payload cs)) \<and> decVal ds < 2 ^ 63
          \<and> Header_Get (httpHeader r) ''x-amz-decoded-content-length'' = ds
        \<longrightarrow> putObjectBody ?req = \<lparr>readBytes = concat (map payload cs), readErr = None\<rparr>
            \<and> putContentLength ?req = int (length (readBytes (putObjectBody ?req)))"
  proof
    assume a: "list_all wellFramed cs \<and> z \<noteq> [] \<and> list_all isHexDigit z \<and> hexVal z = 0
          \<and> list_all isHexDigit sg
          \<and> readBytes (httpBody r) = frameBody cs z sg trailer
          \<and> digits ds \<and> decVal ds = length (concat (map payload cs)) \<and> decVal ds < 2 ^ 63
          \<and> Header_Get (httpHeader r) ''x-amz-decoded-content-length'' = ds"
    then have dec: "signV4ChunkedDecode (readBytes (httpBody r)) = (concat (map payload cs), None)"
      using decode_frameBody[of cs z sg trailer] by simp
    have pi: "ParseInt ds = (int (decVal ds), None)"
      using ParseInt_digits[of ds] a by simp
    have hd: "Header_Get (httpHeader r) ''x-amz-decoded-content-length'' = ds"
      and len: "decVal ds = length (concat (map payload cs))" using a by simp_all
    show "putObjectBody ?req = \<lparr>readBytes = concat (map payload cs), readErr = None\<rparr>
            \<and> putContentLength ?req = int (length (readBytes (putObjectBody ?req)))"
      by (simp add: dec hd pi len)
  qed
  from d f show ?thesis by (intro exI[of _ ?req]) simp
qed

text \<open>A request of 93 bytes that carries 15 bytes of payload in chunks of 5 and 10
  bytes.\<close>

theorem C7_streaming_put_decoding_witness:
  "\<exists>req. decodePutObjectRequest exampleRequest = Inr req
     \<and> putContentLength req = 15
     \<and> putObjectBody req = \<lparr>readBytes = ''hello, good day'', readErr = None\<rparr>
     \<and> httpContentLength exampleRequest = 93"
proof -
  have s: "isRequestSignStreamingV4 exampleRequest"
    by (simp add: isRequestSignStreamingV4_def Header_Get_def canonical_content_sha256
        exampleRequest_def)
  have wf: "list_all wellFramed exampleChunks"
    by (simp add: exampleChunks_def wellFramed_def isHexDigit_def hexVal_def hexDigitVal_def)
  have z: "''0'' \<noteq> []" "list_all isHexDigit ''0''" "hexVal ''0'' = 0" "list_all isHexDigit ''ef56''"
    by (simp_all add: isHexDigit_def hexVal_def hexDigitVal_def)
  have b: "readBytes (httpBody exampleRequest) = frameBody exampleChunks ''0'' ''ef56'' CRLF"
    by (simp add: exampleRequest_def)
  have ds: "digits ''15''" "decVal ''15'' = length (concat (map payload exampleChunks))"
    "decVal ''15'' < 2 ^ 63"
    by (simp_all add: digits_def isDigit_def decVal_def digitVal_def exampleChunks_def)
  have h: "Header_Get (httpHeader exampleRequest) ''x-amz-decoded-content-length'' = ''15''"
    by (simp add: Header_Get_def canonical_decoded_content_length exampleRequest_def)
  from C7_streaming_put_decoding [OF s, where cs = exampleChunks and z = "''0''" and sg = "''ef56''"
      and trailer = CRLF and ds = "''15''"]
  obtain req where r: "decodePutObjectRequest exampleRequest = Inr req"
    and i: "list_all wellFramed exampleChunks \<and> ''0'' \<noteq> [] \<and> list_all isHexDigit ''0''
          \<and> hexVal ''0'' = 0 \<and> list_all isHexDigit ''ef56''
          \<and> readBytes (httpBody exampleRequest) = frameBody exampleChunks ''0'' ''ef56'' CRLF
          \<and> digits ''15'' \<and> decVal ''15'' = length (concat (map payload exampleChunks))
          \<and> decVal ''15'' < 2 ^ 63
          \<and> Header_Get (httpHeader exampleRequest) ''x-amz-decoded-content-length'' = ''15''
        \<longrightarrow> putObjectBody req = \<lparr>readBytes = concat (map payload exampleChunks), readErr = None\<rparr>
            \<and> putContentLength req = int (length (readBytes (putObjectBody req)))"
    by blast
  from i wf z b ds h
  have "putObjectBody req = \<lparr>readBytes = concat (map payload exampleChunks), readErr = None\<rparr>
            \<and> putContentLength req = int (length (readBytes (putObjectBody req)))"
    by blast
  then have "putObjectBody req = \<lparr>readBytes = ''hello, good day'', readErr = None\<rparr>"
    and "putContentLength req = 15"
    by (simp_all add: exampleChunks_def)
  with r show ?thesis by (simp add: exampleRequest_def)
qed

section \<open>Headers of a head response\<close>



section \<open>Absent metadata fields\<close>

text \<open>
  Claim C9. When \<open>HeadObject\<close> succeeds with metadata whose content type or whose
  ETag is absent, the endpoint dereferences the nil pointer without a check: it panics
  and returns no response.
\<close>

theorem C9_head_object_nil_field_panics:
  assumes "CS_HeadObject svc (reqBucket req) (reqKey req) s = (Inr metadata, s')"
    and "ContentType metadata = None \<or> ETag metadata = None"
  shows "MakeHeadObjectEndpoint svc req s = (Panics, s')"
  using assms by (auto simp: MakeHeadObjectEndpoint_def split: option.splits)

text \<open>Through the decorator and the domain service, on a provider that answers
  without a content type.\<close>

theorem C9_head_object_nil_field_panics_witness:
  "fst (MakeHeadObjectEndpoint (NewCachedCloudStorage (NewCloudStorage untypedProvider) [])
     \<lparr>reqBucket = ''b'', reqKey = ''k''\<rparr> freshState) = Panics"
proof -
  let ?md = "\<lparr>ContentLength = 6, ContentType = None, ETag = Some (quote ''abc''),
              LastModified = Some \<lparr>unixSec = 1445412480, zoneOffset = 0\<rparr>\<rparr>"
  have h: "CS_HeadObject (NewCachedCloudStorage (NewCloudStorage untypedProvider) [])
             (reqBucket \<lparr>reqBucket = ''b'', reqKey = ''k''\<rparr>)
             (reqKey \<lparr>reqBucket = ''b'', reqKey = ''k''\<rparr>) freshState =
           (Inr ?md, freshState\<lparr>world := 1, spawned := [SetTask ''head/b/k'' (Head ?md)]\<rparr>)"
    by (simp add: NewCachedCloudStorage_def cachedCloudStorage_HeadObject_def cache_Get_def
        cache_Set_def NewCloudStorage_def cloudStorageService_HeadObject_def untypedProvider_def
        countingProvider_def freshState_def queueNewKeys_def)
  have n: "ContentType ?md = None \<or> ETag ?md = None" by simp
  show ?thesis
    using C9_head_object_nil_field_panics [OF h n] by simp
qed

section \<open>Ranges out of bounds\<close>

text \<open>
  Claim C10. On a cache hit for bytes of length \<open>N\<close> there is no check of the parsed
  bounds against \<open>N\<close> before slicing, and the slice expression panics: for every open
  range \<open>bytes=s-\<close> with \<open>s > N\<close>, for every closed range \<open>bytes=s-e\<close> with
  \<open>e\<close> beyond the capacity of the cached buffer, and for every closed range with
  \<open>0 < e < s\<close>.
\<close>

theorem C10_out_of_bounds_range_panics:
  assumes hit: "cache st (b @ ''/'' @ k) = Some (Bytes sl)"
  shows "(digits ds1 \<and> decVal ds1 < 2 ^ 63 \<and> length (elems sl) < decVal ds1 \<longrightarrow>
          cachedCloudStorage_GetObject baseStorage tail b k (''bytes='' @ ds1 @ ''-'') st = (Panics, st))
       \<and> (digits ds1 \<and> digits ds2 \<and> decVal ds1 < 2 ^ 63 \<and> decVal ds2 < 2 ^ 63
            \<and> cap sl < decVal ds2 \<longrightarrow>
          cachedCloudStorage_GetObject baseStorage tail b k (''bytes='' @ ds1 @ ''-'' @ ds2) st =
            (Panics, st))
       \<and> (digits ds1 \<and> digits ds2 \<and> decVal ds1 < 2 ^ 63 \<and> decVal ds2 < 2 ^ 63
            \<and> decVal ds2 \<noteq> 0 \<and> decVal ds2 < decVal ds1 \<longrightarrow>
          cachedCloudStorage_GetObject baseStorage tail b k (''bytes='' @ ds1 @ ''-'' @ ds2) st =
            (Panics, st))"
proof (intro conjI impI)
  assume a: "digits ds1 \<and> decVal ds1 < 2 ^ 63 \<and> length (elems sl) < decVal ds1"
  have ne: "''bytes='' @ ds1 @ ''-'' \<noteq> []" by simp
  have p: "parseContentRange (''bytes='' @ ds1 @ ''-'') = Inl (ErrorString ''EOF'')"
    using parseContentRange_open_fails[of ds1] a by simp
  have q: "parceContentRangeOpen (''bytes='' @ ds1 @ ''-'') = Inr (int (decVal ds1))"
    using parceContentRangeOpen_open[of ds1 "[]"] a by simp
  have s: "sliceFrom sl (int (decVal ds1)) = Panics"
    using a by (simp add: sliceFrom_def len_def)
  show "cachedCloudStorage_GetObject baseStorage tail b k (''bytes='' @ ds1 @ ''-'') st = (Panics, st)"
    by (simp add: GetObject_hit_range[OF hit ne] p q s del: append.simps)
next
  assume a: "digits ds1 \<and> digits ds2 \<and> decVal ds1 < 2 ^ 63 \<and> decVal ds2 < 2 ^ 63
            \<and> cap sl < decVal ds2"
  have p: "parseContentRange (''bytes='' @ ds1 @ ''-'' @ ds2) = Inr (int (decVal ds1), int (decVal ds2))"
    using parseContentRange_closed[of ds1 ds2 "[]"] a noLeadingDigit_Nil by simp
  have s: "sliceRange sl (int (decVal ds1)) (int (decVal ds2)) = Panics"
    using a by (simp add: sliceRange_def)
  have z: "decVal ds2 \<noteq> 0" using a by auto
  show "cachedCloudStorage_GetObject baseStorage tail b k (''bytes='' @ ds1 @ ''-'' @ ds2) st =
            (Panics, st)"
    using z by (simp add: GetObject_hit_range[OF hit range_closed_nonempty] p s del: append.simps)
next
  assume a: "digits ds1 \<and> digits ds2 \<and> decVal ds1 < 2 ^ 63 \<and> decVal ds2 < 2 ^ 63
            \<and> decVal ds2 \<noteq> 0 \<and> decVal ds2 < decVal ds1"
  have p: "parseContentRange (''bytes='' @ ds1 @ ''-'' @ ds2) = Inr (int (decVal ds1), int (decVal ds2))"
    using parseContentRange_closed[of ds1 ds2 "[]"] a noLeadingDigit_Nil by simp
  have s: "sliceRange sl (int (decVal ds1)) (int (decVal ds2)) = Panics"
    using a by (simp add: sliceRange_def)
  show "cachedCloudStorage_GetObject baseStorage tail b k (''bytes='' @ ds1 @ ''-'' @ ds2) st =
            (Panics, st)"
    using a by (simp add: GetObject_hit_range[OF hit range_closed_nonempty] p s del: append.simps)
qed

text \<open>On the cached object of length 6 and capacity 512.\<close>

theorem C10_out_of_bounds_range_panics_witness:
  "cachedCloudStorage_GetObject (NewCloudStorage countingProvider) [] ''b'' ''k'' ''bytes=7-''
     exampleState = (Panics, exampleState)
   \<and> cachedCloudStorage_GetObject (NewCloudStorage countingProvider) [] ''b'' ''k'' ''bytes=2-600''
     exampleState = (Panics, exampleState)
   \<and> cachedCloudStorage_GetObject (NewCloudStorage countingProvider) [] ''b'' ''k'' ''bytes=5-2''
     exampleState = (Panics, exampleState)"
proof -
  have c: "cap exampleObject = 512" by (simp add: cap_def exampleObject_def)
  show ?thesis
    using C10_out_of_bounds_range_panics [OF exampleState_hit,
        where ?ds1.0 = "''7''" and baseStorage = "NewCloudStorage countingProvider" and tail = "[]"
          and ?ds2.0 = "''2''"]
      C10_out_of_bounds_range_panics [OF exampleState_hit,
        where ?ds1.0 = "''2''" and baseStorage = "NewCloudStorage countingProvider" and tail = "[]"
          and ?ds2.0 = "''600''"]
      C10_out_of_bounds_range_panics [OF exampleState_hit,
        where ?ds1.0 = "''5''" and baseStorage = "NewCloudStorage countingProvider" and tail = "[]"
          and ?ds2.0 = "''2''"]
    by (simp add: digits_examples exampleObject_len c)
qed

end
